theory Spec2Isabelle
  imports Complex_Main "HOL-Library.AList"
begin

section \<open>Numbers of the Python source\<close>

text \<open>
  A float is modelled by the real number it denotes. The scores of the model and their
  normalisation are computed on reals. The arithmetic of \<open>analyze_audio\<close> on the
  confidence (the threshold literal, \<open>90 + confidence * 10\<close>, \<open>(1 - confidence) * 100\<close>)
  is double arithmetic: every operation yields the double nearest to the exact result
  (\<open>round_double\<close> below). Python's unbounded \<open>int\<close> is \<open>int\<close>.
\<close>

text \<open>\<open>int(x)\<close> on a float truncates toward zero.\<close>

definition py_int :: "real \<Rightarrow> int" where
  "py_int x = (if 0 \<le> x then \<lfloor>x\<rfloor> else \<lceil>x\<rceil>)"

text \<open>
  \<open>round(x, n)\<close> rounds to the nearest multiple of \<open>10 ^ -n\<close>; a value exactly half
  way goes to the even neighbour.
\<close>

definition round_half_even :: "real \<Rightarrow> int" where
  "round_half_even x =
     (let f = \<lfloor>x\<rfloor>; d = x - of_int f
      in if d < 1 / 2 then f
         else if 1 / 2 < d then f + 1
         else if even f then f else f + 1)"

definition py_round :: "real \<Rightarrow> nat \<Rightarrow> real" where
  "py_round x n = of_int (round_half_even (x * 10 ^ n)) / 10 ^ n"

text \<open>
  IEEE 754 binary64, round to nearest, ties to even. \<open>binade x\<close> is the exponent \<open>e\<close>
  with \<open>2 ^ e \<le> x < 2 ^ (e + 1)\<close>, found by scanning down from 1023 and stopping at
  \<open>-1022\<close>, the exponent of the subnormal numbers. A double of that binade is a multiple
  of \<open>2 ^ (e - 52)\<close>, and \<open>round_double x\<close> is the nearest such multiple. Overflow to
  infinity (\<open>\<bar>x\<bar> \<ge> 2 ^ 1024\<close>) is not modelled; no operand of the source comes near it.
\<close>

fun binade_from :: "nat \<Rightarrow> int \<Rightarrow> real \<Rightarrow> int" where
  "binade_from 0 e x = e"
| "binade_from (Suc n) e x = (if 2 powi e \<le> x then e else binade_from n (e - 1) x)"

definition binade :: "real \<Rightarrow> int" where
  "binade x = binade_from 2045 1023 x"

definition round_double :: "real \<Rightarrow> real" where
  "round_double x =
     (let ulp = 2 powi (binade \<bar>x\<bar> - 52)
      in of_int (round_half_even (x / ulp)) * ulp)"

section \<open>services/inference.py\<close>

definition CLASSES :: "string list" where
  "CLASSES =
     [''normal'', ''misfire'', ''buka_suara_mesin'', ''oli_rendah'', ''knocking'',
      ''pengapian_buruk'', ''aki_tekor'', ''power_steering'', ''serpentine_belt'']"

text \<open>\<open>np.clip(preds, 1e-6, 1.0)\<close>, element by element.\<close>

definition clip :: "real \<Rightarrow> real \<Rightarrow> real \<Rightarrow> real" where
  "clip x lo hi = min (max x lo) hi"

text \<open>
  \<open>np.argmax\<close>: the index of the first occurrence of the largest element. The scan
  keeps the best index and value seen so far; numpy raises on an empty array, which is
  \<open>None\<close> here.
\<close>

fun argmax_from :: "nat \<Rightarrow> real \<Rightarrow> nat \<Rightarrow> real list \<Rightarrow> nat" where
  "argmax_from bi bv i [] = bi"
| "argmax_from bi bv i (x # xs) =
     (if bv < x then argmax_from i x (Suc i) xs else argmax_from bi bv (Suc i) xs)"

definition argmax :: "real list \<Rightarrow> nat option" where
  "argmax xs = (case xs of [] \<Rightarrow> None | x # rest \<Rightarrow> Some (argmax_from 0 x 1 rest))"


text \<open>
  What the source can raise. \<open>CalledProcessError\<close> carries the exit status of the
  subprocess; \<open>SoundFileError\<close>, \<open>FeatureError\<close> and \<open>ModelError\<close> stand for whatever
  soundfile, librosa/cv2 and the Keras model raise.
\<close>

datatype error =
    CalledProcessError nat
  | FileNotFoundError
  | SoundFileError
  | FeatureError
  | ModelError
  | ValueError

text \<open>
  The array \<open>np.squeeze(model.predict(features))\<close>. A numpy array is rectangular, so
  after the squeeze it is a scalar (\<open>ndim = 0\<close>), a vector, or has two or more axes;
  of the last kind the source reads only \<open>ndim\<close> before it raises.
\<close>

datatype ndarray = Scalar real | Vector "real list" | HigherDim nat

fun ndim :: "ndarray \<Rightarrow> nat" where
  "ndim (Scalar _) = 0"
| "ndim (Vector _) = 1"
| "ndim (HigherDim k) = k + 2"

fun elems :: "ndarray \<Rightarrow> real list" where
  "elems (Vector v) = v"
| "elems _ = []"

text \<open>
  \<open>run_inference\<close> from the shape check on (the part after \<open>np.squeeze\<close>): validate,
  clip, renormalise, take the arg-max, build the rounded dictionary. The dictionary is an
  association list in insertion order; its keys are the nine distinct class names.
\<close>

definition classify_preds :: "ndarray \<Rightarrow> error + (string \<times> real \<times> (string \<times> real) list)" where
  "classify_preds preds =
     (if ndim preds \<noteq> 1 \<or> length (elems preds) \<noteq> length CLASSES then Inl ValueError
      else
        let clipped = map (\<lambda>x. clip x (1 / 10 ^ 6) 1) (elems preds);
            normed = map (\<lambda>x. x / sum_list clipped) clipped
        in case argmax normed of
             None \<Rightarrow> Inl ValueError
           | Some class_index \<Rightarrow>
               Inr (CLASSES ! class_index,
                    normed ! class_index,
                    map (\<lambda>i. (CLASSES ! i, py_round (normed ! i) 4)) [0..<length CLASSES]))"

section \<open>audio/convert.py\<close>

type_synonym bytes = "nat list"

type_synonym filesystem = "string \<rightharpoonup> bytes"

text \<open>\<open>s.replace(old, new)\<close> for a non-empty \<open>old\<close>: every occurrence, left to right.\<close>

function str_replace :: "string \<Rightarrow> string \<Rightarrow> string \<Rightarrow> string" where
  "str_replace old new s =
     (if s = [] \<or> old = [] then s
      else if take (length old) s = old then new @ str_replace old new (drop (length old) s)
      else hd s # str_replace old new (tl s))"
  by pat_completeness auto
termination
  by (relation "measure (\<lambda>(old, new, s). length s)") (auto simp: neq_Nil_conv)

declare str_replace.simps [simp del]

text \<open>\<open>os.remove(path)\<close> raises when the file is not there.\<close>

definition os_remove :: "filesystem \<Rightarrow> string \<Rightarrow> error + filesystem" where
  "os_remove fs path = (if path \<in> dom fs then Inr (fs(path := None)) else Inl FileNotFoundError)"

text \<open>
  The collaborators of the pipeline, as parameters:
  \<^item> \<open>mktemp\<close>: the name \<open>NamedTemporaryFile(delete=False, suffix=".webm")\<close> picks;
  \<^item> \<open>ffmpeg\<close>: the subprocess \<open>ffmpeg -y -i webm_path wav_path\<close>, giving its exit
    status and the file system it leaves;
  \<^item> \<open>sf_read\<close>: \<open>soundfile.read\<close>, giving the samples and the sample rate;
  \<^item> \<open>mfcc_image\<close>: \<open>librosa.feature.mfcc\<close>, the z-score normalisation, \<open>cv2.resize\<close>
    and the two added axes, as one opaque step;
  \<^item> \<open>predict_squeezed\<close>: \<open>np.squeeze(model.predict(features))\<close>.
\<close>

datatype samples = Mono "real list" | Multi "real list list"

record env =
  mktemp :: "filesystem \<Rightarrow> string"
  ffmpeg :: "filesystem \<Rightarrow> string \<Rightarrow> string \<Rightarrow> nat \<times> filesystem"
  sf_read :: "bytes \<Rightarrow> error + (samples \<times> nat)"
  mfcc_image :: "real list \<Rightarrow> nat \<Rightarrow> error + real list list"
  predict_squeezed :: "real list list \<Rightarrow> error + ndarray"

text \<open>
  \<open>webm_to_wav\<close>: \<open>subprocess.run(..., check=True)\<close> raises \<open>CalledProcessError\<close> on a
  non-zero exit status, and the two \<open>os.remove\<close> calls stand after it, outside any
  \<open>try\<close>/\<open>finally\<close>. The result is paired with the file system left behind.
\<close>

definition webm_to_wav :: "env \<Rightarrow> filesystem \<Rightarrow> bytes \<Rightarrow> (error + bytes) \<times> filesystem" where
  "webm_to_wav env fs webm_bytes =
     (let webm_path = mktemp env fs;
          fs1 = fs(webm_path \<mapsto> webm_bytes);
          wav_path = str_replace ''.webm'' ''.wav'' webm_path;
          (status, fs2) = ffmpeg env fs1 webm_path wav_path
      in if status \<noteq> 0 then (Inl (CalledProcessError status), fs2)
         else case fs2 wav_path of
                None \<Rightarrow> (Inl FileNotFoundError, fs2)
              | Some wav_bytes \<Rightarrow>
                  (case os_remove fs2 webm_path of
                     Inl e \<Rightarrow> (Inl e, fs2)
                   | Inr fs3 \<Rightarrow>
                       (case os_remove fs3 wav_path of
                          Inl e \<Rightarrow> (Inl e, fs3)
                        | Inr fs4 \<Rightarrow> (Inr wav_bytes, fs4))))"

section \<open>audio/preprocess.py\<close>

definition TARGET_DURATION :: real where
  "TARGET_DURATION = 3"

text \<open>\<open>y.mean(axis=1)\<close> when \<open>y.ndim > 1\<close>: the mean of each frame's channels.\<close>

fun to_mono :: "samples \<Rightarrow> real list" where
  "to_mono (Mono y) = y"
| "to_mono (Multi frames) = map (\<lambda>frame. sum_list frame / real (length frame)) frames"

text \<open>
  The block under \<open>FIX PANJANG AUDIO\<close>: \<open>np.pad(y, (0, target_len - len(y)))\<close> appends
  zeros, \<open>y[:target_len]\<close> keeps the leading samples.
\<close>

definition fix_length :: "real list \<Rightarrow> nat \<Rightarrow> real list" where
  "fix_length y sr =
     (let target_len = nat (py_int (TARGET_DURATION * real sr))
      in if length y < target_len then y @ replicate (target_len - length y) 0
         else take target_len y)"

definition extract_features :: "env \<Rightarrow> bytes \<Rightarrow> error + real list list" where
  "extract_features env wav_bytes =
     (case sf_read env wav_bytes of
        Inl e \<Rightarrow> Inl e
      | Inr (y, sr) \<Rightarrow> mfcc_image env (fix_length (to_mono y) sr) sr)"

section \<open>services/inference.py: run_inference\<close>

definition run_inference ::
  "env \<Rightarrow> filesystem \<Rightarrow> bytes \<Rightarrow> (error + (string \<times> real \<times> (string \<times> real) list)) \<times> filesystem" where
  "run_inference env fs audio_bytes =
     (case webm_to_wav env fs audio_bytes of
        (Inl e, fs') \<Rightarrow> (Inl e, fs')
      | (Inr wav_bytes, fs') \<Rightarrow>
          (case extract_features env wav_bytes of
             Inl e \<Rightarrow> (Inl e, fs')
           | Inr features \<Rightarrow>
               (case predict_squeezed env features of
                  Inl e \<Rightarrow> (Inl e, fs')
                | Inr preds \<Rightarrow> (classify_preds preds, fs'))))"

section \<open>utils/vibration.py\<close>

record vib_point =
  time :: real
  amplitude :: real
  frequency :: real

text \<open>
  \<open>generate_vibration_data\<close>: the loop appends one point per \<open>i\<close> in \<open>range(length)\<close>.
  \<open>np.random.rand()\<close> reads the process-wide generator; \<open>rng i\<close> is the number it
  yields at the \<open>i\<close>-th call of this run, a value in \<open>[0, 1)\<close> that the caller does
  not choose.
\<close>

definition generate_vibration_data :: "nat \<Rightarrow> (nat \<Rightarrow> real) \<Rightarrow> vib_point list" where
  "generate_vibration_data n rng =
     map (\<lambda>i. \<lparr>time = py_round (real i * (1 / 100)) 4,
               amplitude = sin (real i * (1 / 10)) + rng i * (3 / 10),
               frequency = 50 + sin (real i * (5 / 100)) * 40\<rparr>)
         [0..<n]"

section \<open>backend/main.py\<close>

text \<open>Each issue is a dictionary from field name to text, in insertion order.\<close>

type_synonym issue = "(string \<times> string) list"

definition ISSUE_MAP :: "(string \<times> issue) list" where
  "ISSUE_MAP =
     [(''misfire'',
         [(''severity'', ''high''),
          (''component'', ''Sistem Pembakaran''),
          (''description'', ''Terjadi misfire pada mesin''),
          (''recommendation'', ''Periksa busi, injector, dan sistem bahan bakar'')]),
      (''buka_suara_mesin'',
         [(''severity'', ''medium''),
          (''component'', ''Celah Mesin''),
          (''description'', ''Suara mesin terbuka tidak normal''),
          (''recommendation'', ''Periksa celah katup dan mounting mesin'')]),
      (''oli_rendah'',
         [(''severity'', ''medium''),
          (''component'', ''Pelumasan''),
          (''description'', ''Indikasi oli rendah atau aus''),
          (''recommendation'', ''Cek dan tambah oli mesin'')]),
      (''knocking'',
         [(''severity'', ''high''),
          (''component'', ''Ruang Bakar''),
          (''description'', ''Knocking terdeteksi''),
          (''recommendation'', ''Gunakan BBM oktan lebih tinggi dan cek timing pengapian'')]),
      (''pengapian_buruk'',
         [(''severity'', ''medium''),
          (''component'', ''Pengapian''),
          (''description'', ''Sistem pengapian tidak optimal''),
          (''recommendation'', ''Periksa koil dan busi'')])]"

text \<open>The literal \<open>0.60\<close> is the double nearest to 0.6.\<close>

definition VALID_CONFIDENCE_THRESHOLD :: real where
  "VALID_CONFIDENCE_THRESHOLD = round_double (60 / 100)"

text \<open>
  The block under \<open>VALIDATION\<close>: the final label and the issues list. The issue is a
  copy of the static entry with the key \<open>id\<close> set to the label.
\<close>

definition confidence_gate :: "string \<Rightarrow> real \<Rightarrow> string \<times> issue list" where
  "confidence_gate label confidence =
     (case map_of ISSUE_MAP label of
        Some entry \<Rightarrow>
          if VALID_CONFIDENCE_THRESHOLD \<le> confidence
          then (label, [AList.update ''id'' label entry])
          else (''normal'', [])
      | None \<Rightarrow> (''normal'', []))"

text \<open>
  The block under \<open>HEALTH LOGIC\<close>, on the final label. The confidence is a double:
  the argument stands for the double nearest to it, and a double stands for itself. Each of
  the two operations of \<open>90 + confidence * 10\<close> and of \<open>(1 - confidence) * 100\<close> is
  rounded to a double before \<open>int\<close> truncates the result.
\<close>

definition health_logic :: "string \<Rightarrow> real \<Rightarrow> int" where
  "health_logic label confidence =
     (let c = round_double confidence
      in if label = ''normal'' then py_int (round_double (90 + round_double (c * 10)))
         else max 30 (py_int (round_double (round_double (1 - c) * 100))))"

record response =
  overallHealth :: int
  detectedClass :: string
  confidence :: real
  classProbabilities :: "(string \<times> real) list"
  issues :: "issue list"
  vibrationData :: "vib_point list"
  timestamp :: string
  mode :: string

text \<open>An endpoint answers with an HTTP error (status, detail) or with a response body.\<close>

datatype http_error = HTTPException nat string

text \<open>
  The response built from the outcome of \<open>run_inference\<close> (or from the defaults of the
  \<open>except\<close> branch): everything in \<open>analyze_audio\<close> below the \<open>try\<close> statement.
  \<open>now\<close> is \<open>datetime.now().isoformat()\<close>.
\<close>

definition build_response ::
  "string \<times> real \<times> (string \<times> real) list \<Rightarrow> string \<Rightarrow> (nat \<Rightarrow> real) \<Rightarrow> string \<Rightarrow> response" where
  "build_response inferred mode_sel rng now =
     (let (label0, confidence0, probabilities) = inferred;
          (label, issues0) = confidence_gate label0 confidence0;
          overall_health = health_logic label confidence0;
          vibration_data = generate_vibration_data (if mode_sel = ''quick'' then 100 else 300) rng
      in \<lparr>overallHealth = overall_health,
          detectedClass = label,
          confidence = py_round confidence0 4,
          classProbabilities = probabilities,
          issues = issues0,
          vibrationData = vibration_data,
          timestamp = now,
          mode = mode_sel\<rparr>)"

text \<open>
  \<open>analyze_audio\<close> of backend/main.py: the \<open>try\<close> around \<open>run_inference\<close> catches every
  exception and goes on with the label \<open>unknown\<close>, confidence \<open>0.0\<close> and an empty
  probability dictionary. The mode is never inspected except to pick the number of
  vibration points.
\<close>

definition analyze_audio ::
  "env \<Rightarrow> filesystem \<Rightarrow> bytes \<Rightarrow> string \<Rightarrow> (nat \<Rightarrow> real) \<Rightarrow> string
     \<Rightarrow> (http_error + response) \<times> filesystem" where
  "analyze_audio env fs audio_bytes mode_sel rng now =
     (let (outcome, fs') = run_inference env fs audio_bytes;
          inferred = (case outcome of
                        Inr result \<Rightarrow> result
                      | Inl e \<Rightarrow> (''unknown'', 0, []))
      in (Inr (build_response inferred mode_sel rng now), fs'))"

section \<open>main.py (the top-level variant of the endpoint)\<close>

text \<open>
  The decoders of this variant, as parameters: \<open>AudioSegment.from_file\<close> with an
  optional format followed by the export to WAV, and \<open>librosa.load\<close>; each either
  raises with a message or returns.
\<close>

record decoders =
  from_file :: "bytes \<Rightarrow> string option \<Rightarrow> string + bytes"
  librosa_load :: "bytes \<Rightarrow> string + (real list \<times> nat)"

record upload =
  filename :: string
  content_type :: string
  payload :: bytes

record main_result =
  overall_health :: real
  result_issues :: "issue list"
  vibration_data :: "int list"

definition preprocess_audio :: "decoders \<Rightarrow> bytes \<Rightarrow> string \<Rightarrow> http_error + (real list \<times> nat)" where
  "preprocess_audio dec audio_bytes ctype =
     (case (if ctype \<in> set [''audio/mpeg'', ''audio/mp3''] then from_file dec audio_bytes (Some ''mp3'')
            else if ctype = ''audio/webm'' then from_file dec audio_bytes (Some ''webm'')
            else from_file dec audio_bytes None) of
        Inl msg \<Rightarrow> Inl (HTTPException 400 (''Cannot open audio: '' @ msg))
      | Inr wav \<Rightarrow>
          (case librosa_load dec wav of
             Inl msg \<Rightarrow> Inl (HTTPException 400 (''Cannot read audio: '' @ msg))
           | Inr ysr \<Rightarrow> Inr ysr))"

definition main_analyze_audio :: "decoders \<Rightarrow> upload \<Rightarrow> string \<Rightarrow> http_error + main_result" where
  "main_analyze_audio dec file mode_sel =
     (if mode_sel \<notin> set [''quick'', ''deep'']
      then Inl (HTTPException 400 (''Mode harus 'quick' atau 'deep'' @ [CHR 0x27]))
      else if filename file = [] then Inl (HTTPException 400 ''File tidak valid'')
      else if 50 * 1024 * 1024 < length (payload file)
      then Inl (HTTPException 413 ''File terlalu besar (max 50MB)'')
      else case preprocess_audio dec (payload file) (content_type file) of
             Inl e \<Rightarrow> Inl e
           | Inr ysr \<Rightarrow> Inr \<lparr>overall_health = 95, result_issues = [], vibration_data = replicate 128 0\<rparr>)"

section \<open>Concrete collaborators\<close>

text \<open>
  A fixed set of collaborators on which the definitions can be run: the temporary file is
  \<open>/tmp/tmpclip.webm\<close>, the decoder exits with the given status (writing a four-byte
  output file when the status is zero), and the model answers with the given array.
\<close>

definition sample_env :: "nat \<Rightarrow> ndarray \<Rightarrow> env" where
  "sample_env status preds =
     \<lparr>mktemp = (\<lambda>fs. ''/tmp/tmpclip.webm''),
      ffmpeg = (\<lambda>fs src dst. if status = 0 then (0, fs(dst \<mapsto> [82, 73, 70, 70])) else (status, fs)),
      sf_read = (\<lambda>wav. Inr (Mono [0, 0], 2)),
      mfcc_image = (\<lambda>y sr. Inr [[0]]),
      predict_squeezed = (\<lambda>features. Inr preds)\<rparr>"

text \<open>Two generators: one that always yields 0, one that always yields 0.5.\<close>

definition zero_jitter :: "nat \<Rightarrow> real" where
  "zero_jitter i = 0"

definition half_jitter :: "nat \<Rightarrow> real" where
  "half_jitter i = 1 / 2"

section \<open>Basic facts about the numeric helpers\<close>

lemma py_int_nonneg: "0 \<le> x \<Longrightarrow> py_int x = \<lfloor>x\<rfloor>"
  by (simp add: py_int_def)

subsection \<open>Rounding to a double\<close>

lemma binade_from_range: "e - int n \<le> binade_from n e x \<and> binade_from n e x \<le> e"
proof (induction n arbitrary: e)
  case 0
  show ?case by simp
next
  case (Suc n)
  from Suc[of "e - 1"] show ?case by auto
qed

lemma binade_from_found: "e - int n < binade_from n e x \<Longrightarrow> 2 powi (binade_from n e x) \<le> x"
  by (induction n arbitrary: e) (auto split: if_splits)

lemma binade_from_above: "x < 2 powi (e + 1) \<Longrightarrow> x < 2 powi (binade_from n e x + 1)"
  by (induction n arbitrary: e) auto

lemma binade_range: "- 1022 \<le> binade x \<and> binade x \<le> 1023"
  using binade_from_range[of 1023 2045 x] by (simp add: binade_def)

lemma binade_lower: "- 1022 < binade x \<Longrightarrow> 2 powi (binade x) \<le> x"
  using binade_from_found[of 1023 2045 x] by (simp add: binade_def)

lemma binade_upper: "x < 2 powi 1024 \<Longrightarrow> x < 2 powi (binade x + 1)"
  using binade_from_above[of x 1023 2045] by (simp add: binade_def)


lemma two_powi_less_D: "(2::real) powi a < 2 powi b \<Longrightarrow> a < b"
  using power_int_increasing[of b a "2::real"] by (cases "a < b") auto

lemma two_powi_add: "(2::real) powi a * 2 powi b = 2 powi (a + b)"
  by (simp add: power_int_add)

lemma binade_eqI:
  assumes "- 1022 \<le> e" and "e \<le> 1023" and "2 powi e \<le> x" and "x < 2 powi (e + 1)"
  shows "binade x = e"
proof -
  have "x < 2 powi 1024"
    using assms(2,4) power_int_increasing[of "e + 1" 1024 "2::real"] by simp
  then have up: "x < 2 powi (binade x + 1)" by (rule binade_upper)
  have "2 powi e < (2::real) powi (binade x + 1)"
    using assms(3) up by simp
  then have le: "e \<le> binade x"
    using two_powi_less_D by fastforce
  have "binade x \<le> e"
  proof (rule ccontr)
    assume "\<not> binade x \<le> e"
    then have gt: "e < binade x" by simp
    then have "- 1022 < binade x" using assms(1) by simp
    then have "2 powi (binade x) \<le> x" by (rule binade_lower)
    then have "2 powi (binade x) < (2::real) powi (e + 1)" using assms(4) by simp
    then have "binade x < e + 1" by (rule two_powi_less_D)
    with gt show False by simp
  qed
  with le show ?thesis by simp
qed

lemma binade_mono:
  assumes "x \<le> y" and "y < 2 powi 1024"
  shows "binade x \<le> binade y"
proof (rule ccontr)
  assume "\<not> binade x \<le> binade y"
  then have gt: "binade y < binade x" by simp
  then have "- 1022 < binade x" using binade_range[of y] by simp
  then have "2 powi (binade x) \<le> x" by (rule binade_lower)
  moreover have "y < 2 powi (binade y + 1)" using assms(2) by (rule binade_upper)
  ultimately have "2 powi (binade x) < (2::real) powi (binade y + 1)" using assms(1) by simp
  then have "binade x < binade y + 1" by (rule two_powi_less_D)
  with gt show False by simp
qed

lemma round_half_even_of_int: "round_half_even (of_int n) = n"
  by (simp add: round_half_even_def)

lemma round_half_even_numeral: "round_half_even (numeral n) = numeral n"
  using round_half_even_of_int[of "numeral n"] by simp

lemma round_half_even_bounds: "\<lfloor>x\<rfloor> \<le> round_half_even x \<and> round_half_even x \<le> \<lfloor>x\<rfloor> + 1"
  by (simp add: round_half_even_def Let_def)

lemma round_half_even_mono:
  assumes "a \<le> b"
  shows "round_half_even a \<le> round_half_even b"
proof (cases "\<lfloor>a\<rfloor> = \<lfloor>b\<rfloor>")
  case True
  then show ?thesis using assms by (auto simp: round_half_even_def Let_def)
next
  case False
  then have "\<lfloor>a\<rfloor> < \<lfloor>b\<rfloor>" using assms floor_mono[of a b] by simp
  then show ?thesis
    using round_half_even_bounds[of a] round_half_even_bounds[of b] by simp
qed

lemma round_half_even_error: "\<bar>of_int (round_half_even x) - x\<bar> \<le> 1 / 2"
proof -
  have "of_int \<lfloor>x\<rfloor> \<le> x" "x < of_int \<lfloor>x\<rfloor> + 1" by linarith+
  then show ?thesis
    by (auto simp: round_half_even_def Let_def)
qed


lemma round_double_exact:
  assumes "binade \<bar>x\<bar> = e" and "x = of_int k * 2 powi (e - 52)"
  shows "round_double x = x"
proof -
  have "x / 2 powi (e - 52) = of_int k"
    using assms(2) by simp
  then show ?thesis
    using assms by (simp add: round_double_def Let_def round_half_even_of_int)
qed

lemma round_double_mono:
  assumes "0 \<le> x" and "x \<le> y" and "y < 2 powi 1024"
  shows "round_double x \<le> round_double y"
proof -
  let ?ex = "binade x" and ?ey = "binade y"
  have abs: "\<bar>x\<bar> = x" "\<bar>y\<bar> = y" using assms by simp_all
  have le: "?ex \<le> ?ey" using assms(2,3) by (rule binade_mono)
  show ?thesis
  proof (cases "?ex = ?ey")
    case True
    have "x / 2 powi (?ey - 52) \<le> y / 2 powi (?ey - 52)"
      using assms(2) by (simp add: divide_right_mono)
    then have "round_half_even (x / 2 powi (?ey - 52)) \<le> round_half_even (y / 2 powi (?ey - 52))"
      by (rule round_half_even_mono)
    then have "real_of_int (round_half_even (x / 2 powi (?ey - 52))) * 2 powi (?ey - 52)
        \<le> real_of_int (round_half_even (y / 2 powi (?ey - 52))) * 2 powi (?ey - 52)"
      by (intro mult_right_mono) simp_all
    then show ?thesis by (simp add: round_double_def Let_def abs True)
  next
    case False
    with le have lt: "?ex < ?ey" by simp
    have "x < 2 powi 1024" using assms(2,3) by simp
    then have "x < 2 powi (?ex + 1)" by (rule binade_upper)
    then have "x / 2 powi (?ex - 52) \<le> 2 powi (?ex + 1) / 2 powi (?ex - 52)"
      by (simp add: divide_right_mono)
    also have "2 powi (?ex + 1) / 2 powi (?ex - 52) = (2::real) powi 53"
      by (simp flip: power_int_diff)
    also have "(2::real) powi 53 = of_int (2 ^ 53)" by simp
    finally have "round_half_even (x / 2 powi (?ex - 52)) \<le> round_half_even (of_int (2 ^ 53))"
      by (rule round_half_even_mono)
    then have "real_of_int (round_half_even (x / 2 powi (?ex - 52))) \<le> 2 powi 53"
      by (simp add: round_half_even_numeral)
    then have "real_of_int (round_half_even (x / 2 powi (?ex - 52))) * 2 powi (?ex - 52)
        \<le> 2 powi 53 * 2 powi (?ex - 52)"
      by (intro mult_right_mono) simp_all
    also have "2 powi 53 * 2 powi (?ex - 52) = (2::real) powi (?ex + 1)"
      using two_powi_add[of 53 "?ex - 52"] by (simp only: add_diff_eq) (simp add: algebra_simps)
    finally have upper: "round_double x \<le> 2 powi (?ex + 1)"
      by (simp add: round_double_def Let_def abs)
    have "- 1022 < ?ey" using lt binade_range[of x] by simp
    then have "2 powi ?ey \<le> y" by (rule binade_lower)
    then have "2 powi ?ey / 2 powi (?ey - 52) \<le> y / 2 powi (?ey - 52)"
      by (simp add: divide_right_mono)
    moreover have "2 powi ?ey / 2 powi (?ey - 52) = (2::real) powi 52"
      by (simp flip: power_int_diff)
    moreover have "(2::real) powi 52 = of_int (2 ^ 52)" by simp
    ultimately have "round_half_even (of_int (2 ^ 52)) \<le> round_half_even (y / 2 powi (?ey - 52))"
      by (intro round_half_even_mono) simp
    then have "2 powi 52 \<le> real_of_int (round_half_even (y / 2 powi (?ey - 52)))"
      by (simp add: round_half_even_numeral)
    then have r52: "2 powi 52 * 2 powi (?ey - 52)
        \<le> real_of_int (round_half_even (y / 2 powi (?ey - 52))) * 2 powi (?ey - 52)"
      by (intro mult_right_mono) simp_all
    have "(2::real) powi ?ey = 2 powi 52 * 2 powi (?ey - 52)"
      using two_powi_add[of 52 "?ey - 52"] by (simp only: add_diff_eq) (simp add: algebra_simps)
    also note r52
    finally have lower: "2 powi ?ey \<le> round_double y"
      by (simp only: round_double_def Let_def abs)
    have "(2::real) powi (?ex + 1) \<le> 2 powi ?ey"
      using lt by (intro power_int_increasing) simp_all
    with upper lower show ?thesis by linarith
  qed
qed

lemma round_double_error:
  assumes "0 \<le> x" and "x < 2 powi k" and "- 1021 \<le> k" and "k \<le> 1024"
  shows "\<bar>round_double x - x\<bar> \<le> 2 powi (k - 54)"
proof -
  let ?e = "binade x"
  have abs: "\<bar>x\<bar> = x" using assms(1) by simp
  have "?e < k"
  proof (rule ccontr)
    assume "\<not> ?e < k"
    then have ge: "k \<le> ?e" by simp
    then have "- 1022 < ?e" using assms(3) by simp
    then have "2 powi ?e \<le> x" by (rule binade_lower)
    then have "2 powi ?e < (2::real) powi k" using assms(2) by simp
    then have "?e < k" by (rule two_powi_less_D)
    with ge show False by simp
  qed
  then have ulp: "(2::real) powi (?e - 52) \<le> 2 powi (k - 53)"
    by (intro power_int_increasing) simp_all
  have "\<bar>of_int (round_half_even (x / 2 powi (?e - 52))) - x / 2 powi (?e - 52)\<bar> \<le> 1 / 2"
    by (rule round_half_even_error)
  then have "\<bar>of_int (round_half_even (x / 2 powi (?e - 52))) - x / 2 powi (?e - 52)\<bar> * 2 powi (?e - 52)
      \<le> 1 / 2 * 2 powi (?e - 52)"
    by (intro mult_right_mono) simp_all
  moreover have "\<bar>of_int (round_half_even (x / 2 powi (?e - 52))) - x / 2 powi (?e - 52)\<bar> * 2 powi (?e - 52)
      = \<bar>round_double x - x\<bar>"
  proof -
    have pos: "0 < (2::real) powi (?e - 52)" by simp
    have "\<bar>of_int (round_half_even (x / 2 powi (?e - 52))) - x / 2 powi (?e - 52)\<bar> * 2 powi (?e - 52)
      = \<bar>(of_int (round_half_even (x / 2 powi (?e - 52))) - x / 2 powi (?e - 52)) * 2 powi (?e - 52)\<bar>"
      using pos by (simp add: abs_mult)
    also have "(of_int (round_half_even (x / 2 powi (?e - 52))) - x / 2 powi (?e - 52)) * 2 powi (?e - 52)
      = round_double x - x"
      using pos by (simp add: round_double_def Let_def abs left_diff_distrib)
    finally show ?thesis .
  qed
  moreover have "1 / 2 * 2 powi (?e - 52) \<le> 1 / 2 * (2::real) powi (k - 53)"
    using ulp by simp
  moreover have "1 / 2 * (2::real) powi (k - 53) = 2 powi (k - 54)"
  proof -
    have "(2::real) powi (k - 54 + 1) = 2 powi (k - 54) * 2 powi 1"
      by (rule power_int_add) simp
    moreover have "k - 54 + 1 = k - 53" by simp
    ultimately show ?thesis by simp
  qed
  ultimately show ?thesis by linarith
qed

lemma round_double_eval:
  assumes "- 1022 \<le> e" and "e \<le> 1023" and "2 powi e \<le> \<bar>x\<bar>" and "\<bar>x\<bar> < 2 powi (e + 1)"
  shows "round_double x = of_int (round_half_even (x / 2 powi (e - 52))) * 2 powi (e - 52)"
  using binade_eqI[OF assms] by (simp add: round_double_def Let_def)

lemma binade_zero: "binade 0 = - 1022"
proof -
  have "\<not> - 1022 < binade 0"
  proof
    assume "- 1022 < binade 0"
    then have "2 powi (binade 0) \<le> (0::real)" by (rule binade_lower)
    moreover have "0 < (2::real) powi (binade 0)" by simp
    ultimately show False by simp
  qed
  then show ?thesis using binade_range[of 0] by simp
qed

lemma round_double_zero: "round_double 0 = 0"
  by (simp add: round_double_def round_half_even_def)

lemma round_double_values:
  "round_double 1 = 1" "round_double 10 = 10" "round_double 90 = 90" "round_double 100 = 100"
proof -
  show "round_double 1 = 1"
    by (subst round_double_eval[where e = 0]) (simp_all add: round_half_even_def)
  show "round_double 10 = 10"
    by (subst round_double_eval[where e = 3]) (simp_all add: round_half_even_def)
  show "round_double 90 = 90"
    by (subst round_double_eval[where e = 6]) (simp_all add: round_half_even_def)
  show "round_double 100 = 100"
    by (subst round_double_eval[where e = 6]) (simp_all add: round_half_even_def)
qed

subsection \<open>Scores and their arg-max\<close>

lemma argmax_from_invariant:
  "bi < length ys \<Longrightarrow> bv = ys ! bi \<Longrightarrow> i = length ys \<Longrightarrow> \<forall>j<length ys. ys ! j \<le> bv \<Longrightarrow>
   argmax_from bi bv i xs < length (ys @ xs) \<and>
   (\<forall>j<length (ys @ xs). (ys @ xs) ! j \<le> (ys @ xs) ! argmax_from bi bv i xs)"
proof (induction xs arbitrary: bi bv i ys)
  case Nil
  then show ?case by simp
next
  case (Cons x xs)
  show ?case
  proof (cases "bv < x")
    case True
    have bound: "\<forall>j<length (ys @ [x]). (ys @ [x]) ! j \<le> x"
      using Cons.prems True by (auto simp: nth_append less_Suc_eq)
    have "argmax_from (length ys) x (Suc (length ys)) xs < length ((ys @ [x]) @ xs) \<and>
          (\<forall>j<length ((ys @ [x]) @ xs).
             ((ys @ [x]) @ xs) ! j \<le> ((ys @ [x]) @ xs) ! argmax_from (length ys) x (Suc (length ys)) xs)"
      by (rule Cons.IH) (use bound in auto)
    then show ?thesis using True Cons.prems by simp
  next
    case False
    have bound: "\<forall>j<length (ys @ [x]). (ys @ [x]) ! j \<le> bv"
      using Cons.prems False by (auto simp: nth_append less_Suc_eq)
    have "argmax_from bi bv (Suc (length ys)) xs < length ((ys @ [x]) @ xs) \<and>
          (\<forall>j<length ((ys @ [x]) @ xs).
             ((ys @ [x]) @ xs) ! j \<le> ((ys @ [x]) @ xs) ! argmax_from bi bv (Suc (length ys)) xs)"
      by (rule Cons.IH) (use bound Cons.prems in \<open>auto simp: nth_append\<close>)
    then show ?thesis using False Cons.prems by simp
  qed
qed

lemma argmax_Some:
  assumes "argmax xs = Some i"
  shows "i < length xs \<and> (\<forall>j<length xs. xs ! j \<le> xs ! i)"
proof (cases xs)
  case Nil
  with assms show ?thesis by (simp add: argmax_def)
next
  case (Cons x rest)
  have "argmax_from 0 x 1 rest < length ([x] @ rest) \<and>
        (\<forall>j<length ([x] @ rest). ([x] @ rest) ! j \<le> ([x] @ rest) ! argmax_from 0 x 1 rest)"
    by (rule argmax_from_invariant) auto
  with assms Cons show ?thesis by (simp add: argmax_def)
qed

lemma argmax_nonempty: "xs \<noteq> [] \<Longrightarrow> \<exists>i. argmax xs = Some i"
  by (cases xs) (simp_all add: argmax_def)

lemma member_le_sum_list_pos:
  fixes xs :: "real list"
  shows "\<forall>x\<in>set xs. 0 < x \<Longrightarrow> y \<in> set xs \<Longrightarrow> y \<le> sum_list xs"
proof (induction xs)
  case Nil
  then show ?case by simp
next
  case (Cons a xs)
  have "0 \<le> sum_list xs" using Cons.prems(1) by (intro sum_list_nonneg) (auto intro: less_imp_le)
  moreover have "0 < a" using Cons.prems(1) by simp
  ultimately show ?case using Cons by (cases "y = a") (auto simp: add_increasing)
qed

lemma sum_list_divide:
  fixes xs :: "real list"
  shows "sum_list (map (\<lambda>x. x / s) xs) = sum_list xs / s"
  by (induction xs) (simp_all add: add_divide_distrib)

lemma clip_range: "1 / 10 ^ 6 \<le> clip x (1 / 10 ^ 6) 1 \<and> clip x (1 / 10 ^ 6) 1 \<le> 1"
  by (simp add: clip_def)

lemma normed_range:
  fixes v :: "real list"
  defines "clipped \<equiv> map (\<lambda>x. clip x (1 / 10 ^ 6) 1) v"
  assumes "p \<in> set (map (\<lambda>x. x / sum_list clipped) clipped)"
  shows "0 < p \<and> p \<le> 1"
proof -
  have pos: "\<forall>x\<in>set clipped. 0 < x"
    unfolding clipped_def using clip_range by (auto intro: less_le_trans[of 0 "1 / 10 ^ 6"])
  from assms(2) obtain c where c: "c \<in> set clipped" "p = c / sum_list clipped" by auto
  have "c \<le> sum_list clipped" using pos c(1) by (rule member_le_sum_list_pos)
  moreover have "0 < c" using pos c(1) by simp
  ultimately show ?thesis using c(2) by simp
qed

lemma normed_sum:
  fixes v :: "real list"
  defines "clipped \<equiv> map (\<lambda>x. clip x (1 / 10 ^ 6) 1) v"
  assumes "v \<noteq> []"
  shows "sum_list (map (\<lambda>x. x / sum_list clipped) clipped) = 1"
proof -
  have pos: "\<forall>x\<in>set clipped. 0 < x"
    unfolding clipped_def using clip_range by (auto intro: less_le_trans[of 0 "1 / 10 ^ 6"])
  obtain c where c: "c \<in> set clipped" using assms by (cases v) auto
  have "c \<le> sum_list clipped" using pos c by (rule member_le_sum_list_pos)
  then have "0 < sum_list clipped" using pos c by force
  moreover have "sum_list (map (\<lambda>x. x / sum_list clipped) clipped) = sum_list clipped / sum_list clipped"
    by (rule sum_list_divide)
  ultimately show ?thesis by simp
qed

lemma classify_preds_Inr:
  assumes "classify_preds preds = Inr (label, c, probs)"
  shows "0 < c \<and> c \<le> 1 \<and> label \<in> set CLASSES"
proof -
  from assms have shape: "ndim preds = 1" "length (elems preds) = length CLASSES"
    by (auto simp: classify_preds_def split: if_splits)
  define clipped where "clipped = map (\<lambda>x. clip x (1 / 10 ^ 6) 1) (elems preds)"
  define normed where "normed = map (\<lambda>x. x / sum_list clipped) clipped"
  from assms shape obtain i where i: "argmax normed = Some i" "label = CLASSES ! i" "c = normed ! i"
    by (auto simp: classify_preds_def Let_def clipped_def normed_def split: option.splits)
  from argmax_Some[OF i(1)] have lt: "i < length normed" by simp
  then have "c \<in> set normed" using i(3) by simp
  then have "0 < c \<and> c \<le> 1"
    unfolding normed_def clipped_def by (rule normed_range)
  moreover have "length normed = length CLASSES"
    by (simp add: normed_def clipped_def shape)
  ultimately show ?thesis using lt i(2) by simp
qed



lemma py_round_4_error: "\<bar>py_round x 4 - x\<bar> \<le> 5 / 10 ^ 5"
proof -
  have "\<bar>of_int (round_half_even (x * 10 ^ 4)) - x * 10 ^ 4\<bar> \<le> 1 / 2"
    by (rule round_half_even_error)
  then have "\<bar>of_int (round_half_even (x * 10 ^ 4)) / 10 ^ 4 - x\<bar> \<le> (1 / 2) / 10 ^ 4"
    by (simp add: field_simps abs_le_iff)
  then show ?thesis by (simp add: py_round_def)
qed

lemma sum_list_error:
  fixes xs :: "real list"
  assumes "\<forall>x\<in>set xs. \<bar>f x - x\<bar> \<le> e"
  shows "\<bar>sum_list (map f xs) - sum_list xs\<bar> \<le> real (length xs) * e"
  using assms
proof (induction xs)
  case Nil
  then show ?case by simp
next
  case (Cons a xs)
  have "\<bar>f a - a\<bar> \<le> e" using Cons.prems by simp
  moreover have "\<bar>sum_list (map f xs) - sum_list xs\<bar> \<le> real (length xs) * e"
    using Cons by simp
  ultimately show ?case by (simp add: algebra_simps)
qed

lemma probabilities_zip:
  assumes "length normed = length CLASSES"
  shows "map (\<lambda>i. (CLASSES ! i, py_round (normed ! i) 4)) [0..<length CLASSES] =
         zip CLASSES (map (\<lambda>p. py_round p 4) normed)"
  using assms by (intro nth_equalityI) simp_all

lemma classify_preds_Vector:
  assumes "length v = length CLASSES"
  defines "clipped \<equiv> map (\<lambda>x. clip x (1 / 10 ^ 6) 1) v"
  defines "normed \<equiv> map (\<lambda>x. x / sum_list clipped) clipped"
  shows "\<exists>i. argmax normed = Some i \<and> i < length CLASSES \<and> (\<forall>j<length normed. normed ! j \<le> normed ! i) \<and>
           classify_preds (Vector v) =
             Inr (CLASSES ! i, normed ! i, zip CLASSES (map (\<lambda>p. py_round p 4) normed))"
proof -
  have len: "length normed = length CLASSES"
    by (simp add: normed_def clipped_def assms(1))
  then have "normed \<noteq> []" by (auto simp: CLASSES_def)
  then obtain i where i: "argmax normed = Some i" using argmax_nonempty by blast
  have max: "i < length normed \<and> (\<forall>j<length normed. normed ! j \<le> normed ! i)"
    using argmax_Some[OF i] .
  have "classify_preds (Vector v) =
          (if ndim (Vector v) \<noteq> 1 \<or> length (elems (Vector v)) \<noteq> length CLASSES then Inl ValueError
           else case argmax normed of
             None \<Rightarrow> Inl ValueError
           | Some class_index \<Rightarrow>
               Inr (CLASSES ! class_index, normed ! class_index,
                    map (\<lambda>i. (CLASSES ! i, py_round (normed ! i) 4)) [0..<length CLASSES]))"
    unfolding classify_preds_def Let_def normed_def clipped_def elems.simps by (rule refl)
  then have "classify_preds (Vector v) =
          (case argmax normed of
             None \<Rightarrow> Inl ValueError
           | Some class_index \<Rightarrow>
               Inr (CLASSES ! class_index, normed ! class_index,
                    map (\<lambda>i. (CLASSES ! i, py_round (normed ! i) 4)) [0..<length CLASSES]))"
    using assms(1) by simp
  then have "classify_preds (Vector v) =
             Inr (CLASSES ! i, normed ! i, zip CLASSES (map (\<lambda>p. py_round p 4) normed))"
    by (simp only: i option.case probabilities_zip[OF len])
  with i max len show ?thesis by auto
qed

section \<open>The pipeline, step by step\<close>

lemma wav_path_sample: "str_replace ''.webm'' ''.wav'' ''/tmp/tmpclip.webm'' = ''/tmp/tmpclip.wav''"
  by code_simp

lemma webm_to_wav_sample_ok:
  "fst (webm_to_wav (sample_env 0 preds) Map.empty audio) = Inr [82, 73, 70, 70]"
  by (simp add: webm_to_wav_def sample_env_def wav_path_sample os_remove_def)

lemma webm_to_wav_sample_fail:
  "status \<noteq> 0 \<Longrightarrow> fst (webm_to_wav (sample_env status preds) Map.empty audio) = Inl (CalledProcessError status)"
  by (simp add: webm_to_wav_def sample_env_def wav_path_sample)

lemma run_inference_sample_ok:
  "fst (run_inference (sample_env 0 preds) Map.empty audio) = classify_preds preds"
proof -
  obtain fs' where "webm_to_wav (sample_env 0 preds) Map.empty audio = (Inr [82, 73, 70, 70], fs')"
    using webm_to_wav_sample_ok[of preds audio] by (cases "webm_to_wav (sample_env 0 preds) Map.empty audio") simp
  then show ?thesis
    by (simp add: run_inference_def extract_features_def sample_env_def)
qed

lemma run_inference_Inr:
  assumes "fst (run_inference env fs audio) = Inr t"
  shows "\<exists>preds. classify_preds preds = Inr t"
  using assms
  by (auto simp: run_inference_def split: prod.splits sum.splits)

lemma run_inference_webm_fail:
  "fst (webm_to_wav env fs audio) = Inl e \<Longrightarrow> fst (run_inference env fs audio) = Inl e"
  by (cases "webm_to_wav env fs audio") (simp add: run_inference_def)

lemma run_inference_after_decode:
  "fst (webm_to_wav env fs audio) = Inr wav \<Longrightarrow>
   fst (run_inference env fs audio) =
     (case extract_features env wav of
        Inl e \<Rightarrow> Inl e
      | Inr features \<Rightarrow>
          (case predict_squeezed env features of
             Inl e \<Rightarrow> Inl e
           | Inr preds \<Rightarrow> classify_preds preds))"
  by (cases "webm_to_wav env fs audio") (simp add: run_inference_def split: sum.splits)

lemma analyze_audio_response:
  "fst (analyze_audio env fs audio m rng now) =
     Inr (build_response (case fst (run_inference env fs audio) of Inr t \<Rightarrow> t | Inl e \<Rightarrow> (''unknown'', 0, [])) m rng now)"
  by (simp add: analyze_audio_def split: prod.splits)

lemma build_response_fields:
  "detectedClass (build_response (l, c, ps) m rng now) = fst (confidence_gate l c)"
  "issues (build_response (l, c, ps) m rng now) = snd (confidence_gate l c)"
  "overallHealth (build_response (l, c, ps) m rng now) = health_logic (fst (confidence_gate l c)) c"
  "confidence (build_response (l, c, ps) m rng now) = py_round c 4"
  "classProbabilities (build_response (l, c, ps) m rng now) = ps"
  "vibrationData (build_response (l, c, ps) m rng now) = generate_vibration_data (if m = ''quick'' then 100 else 300) rng"
  "timestamp (build_response (l, c, ps) m rng now) = now"
  "mode (build_response (l, c, ps) m rng now) = m"
  by (simp_all add: build_response_def split: prod.splits)

lemma issue_map_keys:
  "map fst ISSUE_MAP = [''misfire'', ''buka_suara_mesin'', ''oli_rendah'', ''knocking'', ''pengapian_buruk'']"
  by (simp add: ISSUE_MAP_def)

lemma issue_map_no_id:
  "map_of ISSUE_MAP l = Some entry \<Longrightarrow> AList.update ''id'' l entry = entry @ [(''id'', l)]"
  by (auto simp: ISSUE_MAP_def split: if_splits)

lemma confidence_gate_cases:
  "confidence_gate l c =
     (case map_of ISSUE_MAP l of
        Some entry \<Rightarrow>
          if VALID_CONFIDENCE_THRESHOLD \<le> c then (l, [entry @ [(''id'', l)]]) else (''normal'', [])
      | None \<Rightarrow> (''normal'', []))"
  by (auto simp: confidence_gate_def issue_map_no_id split: option.splits)

subsection \<open>The health score in double arithmetic\<close>

lemma below_overflow: "x \<le> 128 \<Longrightarrow> x < (2::real) powi 1024"
proof -
  assume "x \<le> 128"
  moreover have "(2::real) powi 8 \<le> 2 powi 1024" by (intro power_int_increasing) simp_all
  moreover have "(2::real) powi 8 = 256" by simp
  ultimately show ?thesis by linarith
qed

lemma round_double_le: "0 \<le> x \<Longrightarrow> x \<le> y \<Longrightarrow> y \<le> 128 \<Longrightarrow> round_double x \<le> round_double y"
  by (rule round_double_mono) (simp_all add: below_overflow)

lemma threshold_value: "VALID_CONFIDENCE_THRESHOLD = 5404319552844595 / 9007199254740992"
  unfolding VALID_CONFIDENCE_THRESHOLD_def
  by (subst round_double_eval[where e = "- 1"]) (simp_all add: round_half_even_def)

lemma round_double_at_threshold:
  "round_double (3602879701896397 / 9007199254740992) = 3602879701896397 / 9007199254740992"
  "round_double (90071992547409925 / 2251799813685248) = 40"
proof -
  show "round_double (3602879701896397 / 9007199254740992) = 3602879701896397 / 9007199254740992"
    by (subst round_double_eval[where e = "- 2"]) (simp_all add: round_half_even_def)
  show "round_double (90071992547409925 / 2251799813685248) = 40"
    by (subst round_double_eval[where e = 5]) (simp_all add: round_half_even_def)
qed

lemma scaled_confidence_range:
  assumes "0 \<le> c" and "c \<le> 1"
  shows "0 \<le> round_double (c * 10) \<and> round_double (c * 10) \<le> 10"
proof -
  have "round_double 0 \<le> round_double (c * 10)"
    using assms by (intro round_double_le) simp_all
  moreover have "round_double (c * 10) \<le> round_double 10"
    using assms by (intro round_double_le) simp_all
  ultimately show ?thesis by (simp add: round_double_zero round_double_values)
qed

lemma normal_score_range:
  assumes "0 \<le> c" and "c \<le> 1"
  shows "90 \<le> round_double (90 + round_double (c * 10)) \<and>
         round_double (90 + round_double (c * 10)) \<le> 100"
proof -
  note t = scaled_confidence_range[OF assms]
  have "round_double 90 \<le> round_double (90 + round_double (c * 10))"
    using t by (intro round_double_le) simp_all
  moreover have "round_double (90 + round_double (c * 10)) \<le> round_double 100"
    using t by (intro round_double_le) simp_all
  ultimately show ?thesis by (simp add: round_double_values)
qed

lemma complement_range:
  assumes "0 \<le> c" and "c \<le> 1"
  shows "0 \<le> round_double (1 - c) \<and> round_double (1 - c) \<le> 1"
proof -
  have "round_double 0 \<le> round_double (1 - c)"
    using assms by (intro round_double_le) simp_all
  moreover have "round_double (1 - c) \<le> round_double 1"
    using assms by (intro round_double_le) simp_all
  ultimately show ?thesis by (simp add: round_double_zero round_double_values)
qed

lemma fault_score_range:
  assumes "0 \<le> c" and "c \<le> 1"
  shows "0 \<le> round_double (round_double (1 - c) * 100) \<and>
         round_double (round_double (1 - c) * 100) \<le> 100"
proof -
  note a = complement_range[OF assms]
  have "round_double 0 \<le> round_double (round_double (1 - c) * 100)"
    using a by (intro round_double_le) simp_all
  moreover have "round_double (round_double (1 - c) * 100) \<le> round_double 100"
    using a by (intro round_double_le) simp_all
  ultimately show ?thesis by (simp add: round_double_zero round_double_values)
qed

lemma abs_scale:
  fixes a b e k :: real
  assumes "\<bar>a - b\<bar> \<le> e" and "0 \<le> k"
  shows "\<bar>a * k - b * k\<bar> \<le> k * e"
proof -
  have "a * k - b * k = (a - b) * k" by (simp add: algebra_simps)
  then have "\<bar>a * k - b * k\<bar> = \<bar>a - b\<bar> * k"
    using assms(2) by (simp add: abs_mult)
  also have "\<dots> \<le> e * k" using assms by (intro mult_right_mono)
  finally show ?thesis by (simp add: mult.commute)
qed

lemma floor_close:
  fixes a b :: real
  assumes "\<bar>a - b\<bar> < 1"
  shows "\<bar>\<lfloor>a\<rfloor> - \<lfloor>b\<rfloor>\<bar> \<le> 1"
proof -
  have "a \<le> b + 1" and "b \<le> a + 1" using assms by linarith+
  then have "\<lfloor>a\<rfloor> \<le> \<lfloor>b + 1\<rfloor>" and "\<lfloor>b\<rfloor> \<le> \<lfloor>a + 1\<rfloor>"
    using floor_mono[of a "b + 1"] floor_mono[of b "a + 1"] by blast+
  then show ?thesis by simp
qed

lemma normal_score_close:
  assumes "0 \<le> c" and "c \<le> 1"
  shows "\<bar>round_double (90 + round_double (c * 10)) - (90 + c * 10)\<bar> < 1"
proof -
  note t = scaled_confidence_range[OF assms]
  have "\<bar>round_double (c * 10) - c * 10\<bar> \<le> 2 powi (4 - 54)"
    using assms by (intro round_double_error) simp_all
  moreover have "\<bar>round_double (90 + round_double (c * 10)) - (90 + round_double (c * 10))\<bar>
      \<le> 2 powi (7 - 54)"
    using t by (intro round_double_error) simp_all
  moreover have "(2::real) powi (4 - 54) + 2 powi (7 - 54) < 1" by simp
  ultimately show ?thesis by linarith
qed

lemma fault_score_close:
  assumes "0 \<le> c" and "c \<le> 1"
  shows "\<bar>round_double (round_double (1 - c) * 100) - (1 - c) * 100\<bar> < 1"
proof -
  note a = complement_range[OF assms]
  have "\<bar>round_double (1 - c) - (1 - c)\<bar> \<le> 2 powi (1 - 54)"
    using assms by (intro round_double_error) simp_all
  moreover have "\<bar>round_double (1 - c) * 100 - (1 - c) * 100\<bar> = \<bar>round_double (1 - c) - (1 - c)\<bar> * 100"
  proof -
    have "round_double (1 - c) * 100 - (1 - c) * 100 = (round_double (1 - c) - (1 - c)) * 100"
      by (simp add: algebra_simps)
    then show ?thesis by (simp only: abs_mult)
  qed
  ultimately have "\<bar>round_double (1 - c) * 100 - (1 - c) * 100\<bar> \<le> 100 * 2 powi (1 - 54)"
    by simp
  moreover have "\<bar>round_double (round_double (1 - c) * 100) - round_double (1 - c) * 100\<bar>
      \<le> 2 powi (7 - 54)"
    using a by (intro round_double_error) simp_all
  moreover have "100 * (2::real) powi (1 - 54) + 2 powi (7 - 54) < 1" by simp
  ultimately show ?thesis by linarith
qed

lemma binade_small: "x < 2 powi (- 1021) \<Longrightarrow> binade x = - 1022"
proof (cases "2 powi (- 1022) \<le> x")
  case True
  assume "x < 2 powi (- 1021)"
  with True show ?thesis by (intro binade_eqI) simp_all
next
  case False
  have "\<not> - 1022 < binade x"
  proof
    assume gt: "- 1022 < binade x"
    then have "2 powi (binade x) \<le> x" by (rule binade_lower)
    moreover have "(2::real) powi (- 1022) \<le> 2 powi (binade x)"
      using gt by (intro power_int_increasing) simp_all
    ultimately show False using False by simp
  qed
  then show ?thesis using binade_range[of x] by simp
qed

lemma round_double_idem:
  assumes "0 \<le> x" and "x < 2 powi 1023"
  shows "round_double (round_double x) = round_double x"
proof -
  let ?e = "binade x"
  let ?u = "(2::real) powi (?e - 52)"
  let ?n = "round_half_even (x / ?u)"
  have abs: "\<bar>x\<bar> = x" using assms(1) by simp
  have r: "round_double x = of_int ?n * ?u"
    by (simp add: round_double_def Let_def abs)
  have upos: "0 < ?u" by simp
  have "x < 2 powi 1024"
    using assms(2) power_int_increasing[of 1023 1024 "2::real"] by simp
  then have "x < 2 powi (?e + 1)" by (rule binade_upper)
  then have "x / ?u \<le> 2 powi (?e + 1) / ?u"
    by (simp add: divide_right_mono)
  also have "2 powi (?e + 1) / ?u = (2::real) powi 53"
    by (simp flip: power_int_diff)
  also have "(2::real) powi 53 = of_int (2 ^ 53)" by simp
  finally have "?n \<le> round_half_even (of_int (2 ^ 53))"
    by (rule round_half_even_mono)
  then have n_le: "?n \<le> 2 ^ 53" by (simp add: round_half_even_numeral)
  have "round_half_even 0 \<le> ?n"
    using assms(1) by (intro round_half_even_mono) simp
  then have n_ge: "0 \<le> ?n" using round_half_even_of_int[of 0] by simp
  have r0: "0 \<le> round_double x" using n_ge by (simp add: r)
  have ebound: "?e \<le> 1022"
  proof (rule ccontr)
    assume "\<not> ?e \<le> 1022"
    then have gt: "1022 < ?e" by simp
    then have "2 powi ?e \<le> x" by (intro binade_lower) simp
    moreover have "(2::real) powi 1023 \<le> 2 powi ?e"
      using gt by (intro power_int_increasing) simp_all
    ultimately show False using assms(2) by simp
  qed
  show ?thesis
  proof (cases "?n = 2 ^ 53")
    case True
    have "real_of_int ?n * ?u = 2 powi 53 * ?u" using True by simp
    also have "\<dots> = 2 powi (?e + 1)"
      using two_powi_add[of 53 "?e - 52"] by (simp only: add_diff_eq) (simp add: algebra_simps)
    finally have val: "round_double x = 2 powi (?e + 1)" by (simp only: r)
    have "binade (2 powi (?e + 1)) = ?e + 1"
      using binade_range[of x] ebound
      by (intro binade_eqI) (simp_all add: power_int_strict_increasing)
    moreover have "(2::real) powi (?e + 1) = of_int (2 ^ 52) * 2 powi (?e + 1 - 52)"
      using two_powi_add[of 52 "?e + 1 - 52"] by (simp only: add_diff_eq) (simp add: algebra_simps)
    moreover have "\<bar>(2::real) powi (?e + 1)\<bar> = 2 powi (?e + 1)" by simp
    ultimately have "round_double (2 powi (?e + 1)) = 2 powi (?e + 1)"
      by (intro round_double_exact[where e = "?e + 1" and k = "2 ^ 52"]) simp_all
    then show ?thesis by (simp only: val)
  next
    case False
    with n_le have n_lt: "?n < 2 ^ 53" by simp
    have "real_of_int ?n * ?u < 2 powi 53 * ?u"
      using n_lt upos by (intro mult_strict_right_mono) simp_all
    also have "2 powi 53 * ?u = (2::real) powi (?e + 1)"
      using two_powi_add[of 53 "?e - 52"] by (simp only: add_diff_eq) (simp add: algebra_simps)
    finally have below: "round_double x < 2 powi (?e + 1)" by (simp only: r)
    have "binade (round_double x) = ?e"
    proof (cases "- 1022 < ?e")
      case True
      then have "2 powi ?e \<le> x" by (rule binade_lower)
      then have "2 powi ?e / ?u \<le> x / ?u" by (simp add: divide_right_mono)
      moreover have "2 powi ?e / ?u = (2::real) powi 52" by (simp flip: power_int_diff)
      moreover have "(2::real) powi 52 = of_int (2 ^ 52)" by simp
      ultimately have "round_half_even (of_int (2 ^ 52)) \<le> ?n"
        by (intro round_half_even_mono) simp
      then have "2 powi 52 \<le> real_of_int ?n"
        by (simp add: round_half_even_numeral)
      then have "2 powi 52 * ?u \<le> real_of_int ?n * ?u"
        by (intro mult_right_mono) simp_all
      moreover have "(2::real) powi ?e = 2 powi 52 * ?u"
        using two_powi_add[of 52 "?e - 52"] by (simp only: add_diff_eq) (simp add: algebra_simps)
      ultimately have "2 powi ?e \<le> round_double x" by (simp only: r)
      with below show ?thesis
        using binade_range[of x] by (intro binade_eqI) simp_all
    next
      case False
      then have e: "?e = - 1022" using binade_range[of x] by simp
      have "round_double x < 2 powi (- 1021)" using below by (simp add: e)
      then show ?thesis by (simp add: binade_small e)
    qed
    moreover have "\<bar>round_double x\<bar> = round_double x" using r0 by simp
    ultimately show ?thesis
      by (intro round_double_exact[where e = ?e and k = ?n]) (simp_all add: r)
  qed
qed

lemma confidence_double_range:
  assumes "0 \<le> c" and "c \<le> 1"
  shows "0 \<le> round_double c \<and> round_double c \<le> 1"
proof -
  have "round_double 0 \<le> round_double c"
    using assms by (intro round_double_le) simp_all
  moreover have "round_double c \<le> round_double 1"
    using assms by (intro round_double_le) simp_all
  ultimately show ?thesis by (simp add: round_double_zero round_double_values)
qed

lemma confidence_double_error:
  assumes "0 \<le> c" and "c \<le> 1"
  shows "\<bar>round_double c - c\<bar> \<le> 2 powi (1 - 54)"
  using assms by (intro round_double_error) simp_all

lemma confidence_double_fixed:
  assumes "0 \<le> c" and "c \<le> 1"
  shows "round_double (round_double c) = round_double c"
proof -
  have "(1::real) < 2 powi 1023"
    using power_int_strict_increasing[of 0 1023 "2::real"] by simp
  then show ?thesis using assms by (intro round_double_idem) simp_all
qed

lemma health_normal_formula:
  assumes "0 \<le> c" and "c \<le> 1"
  shows "health_logic ''normal'' c = \<lfloor>round_double (90 + round_double (round_double c * 10))\<rfloor>"
proof -
  note c' = confidence_double_range[OF assms]
  have "0 \<le> round_double (90 + round_double (round_double c * 10))"
    using normal_score_range[of "round_double c"] c' by simp
  then show ?thesis by (simp add: health_logic_def Let_def py_int_nonneg)
qed

lemma health_normal_range:
  assumes "0 \<le> c" and "c \<le> 1"
  shows "90 \<le> health_logic ''normal'' c \<and> health_logic ''normal'' c \<le> 100"
proof -
  note c' = confidence_double_range[OF assms]
  have s: "90 \<le> round_double (90 + round_double (round_double c * 10)) \<and>
           round_double (90 + round_double (round_double c * 10)) \<le> 100"
    using normal_score_range[of "round_double c"] c' by simp
  have "90 \<le> \<lfloor>round_double (90 + round_double (round_double c * 10))\<rfloor>"
    using s by (simp add: le_floor_iff)
  moreover have "\<lfloor>round_double (90 + round_double (round_double c * 10))\<rfloor> \<le> 100"
    using s by (simp add: floor_le_iff)
  ultimately show ?thesis by (simp add: health_normal_formula[OF assms])
qed

lemma health_fault_formula:
  assumes "l \<noteq> ''normal''" and "0 \<le> c" and "c \<le> 1"
  shows "health_logic l c = max 30 \<lfloor>round_double (round_double (1 - round_double c) * 100)\<rfloor>"
proof -
  note c' = confidence_double_range[OF assms(2,3)]
  have "0 \<le> round_double (round_double (1 - round_double c) * 100)"
    using fault_score_range[of "round_double c"] c' by simp
  then show ?thesis using assms(1) by (simp add: health_logic_def Let_def py_int_nonneg)
qed

lemma health_fault_bounds:
  assumes "l \<noteq> ''normal''" and "0 \<le> c" and "c \<le> 1"
  shows "30 \<le> health_logic l c \<and> health_logic l c \<le> 100"
proof -
  note c' = confidence_double_range[OF assms(2,3)]
  have "round_double (round_double (1 - round_double c) * 100) \<le> 100"
    using fault_score_range[of "round_double c"] c' by simp
  then have "\<lfloor>round_double (round_double (1 - round_double c) * 100)\<rfloor> \<le> 100"
    by (simp add: floor_le_iff)
  then show ?thesis using health_fault_formula[OF assms] by simp
qed

lemma threshold_fixed: "round_double VALID_CONFIDENCE_THRESHOLD = VALID_CONFIDENCE_THRESHOLD"
  unfolding threshold_value
  by (subst round_double_eval[where e = "- 1"]) (simp_all add: round_half_even_def)

lemma health_fault_range:
  assumes "l \<noteq> ''normal''" and "VALID_CONFIDENCE_THRESHOLD \<le> c" and "c \<le> 1"
  shows "30 \<le> health_logic l c \<and> health_logic l c \<le> 40"
proof -
  have c0: "0 \<le> c" using assms(2) by (simp add: threshold_value)
  note c' = confidence_double_range[OF c0 assms(3)]
  have "round_double VALID_CONFIDENCE_THRESHOLD \<le> round_double c"
    using assms(2,3) by (intro round_double_le) (simp_all add: threshold_value)
  then have "5404319552844595 / 9007199254740992 \<le> round_double c"
    by (simp only: threshold_fixed) (simp only: threshold_value)
  then have "1 - round_double c \<le> 3602879701896397 / 9007199254740992"
    by simp
  then have "round_double (1 - round_double c) \<le> round_double (3602879701896397 / 9007199254740992)"
    using c' by (intro round_double_le) simp_all
  then have a: "round_double (1 - round_double c) \<le> 3602879701896397 / 9007199254740992"
    by (simp only: round_double_at_threshold)
  have a0: "0 \<le> round_double (1 - round_double c)"
    using complement_range[of "round_double c"] c' by simp
  have "round_double (1 - round_double c) * 100 \<le> 90071992547409925 / 2251799813685248"
    using a by simp
  then have "round_double (round_double (1 - round_double c) * 100)
      \<le> round_double (90071992547409925 / 2251799813685248)"
    using a0 by (intro round_double_le) simp_all
  then have "round_double (round_double (1 - round_double c) * 100) \<le> 40"
    by (simp only: round_double_at_threshold)
  then have "\<lfloor>round_double (round_double (1 - round_double c) * 100)\<rfloor> \<le> 40"
    by (simp add: floor_le_iff)
  then show ?thesis using health_fault_formula[OF assms(1) c0 assms(3)] by simp
qed

lemma health_end_points: "health_logic ''normal'' 0 = 90 \<and> health_logic ''normal'' 1 = 100"
  by (simp add: health_logic_def py_int_def round_double_zero round_double_values)

lemma health_normal_close:
  assumes "0 \<le> c" and "c \<le> 1"
  shows "\<bar>health_logic ''normal'' c - \<lfloor>90 + c * 10\<rfloor>\<bar> \<le> 1"
proof -
  note c' = confidence_double_range[OF assms]
  have "\<bar>round_double (90 + round_double (round_double c * 10)) - (90 + round_double c * 10)\<bar>
      \<le> 2 powi (4 - 54) + 2 powi (7 - 54)"
  proof -
    have "\<bar>round_double (round_double c * 10) - round_double c * 10\<bar> \<le> 2 powi (4 - 54)"
      using c' by (intro round_double_error) simp_all
    moreover have "\<bar>round_double (90 + round_double (round_double c * 10))
        - (90 + round_double (round_double c * 10))\<bar> \<le> 2 powi (7 - 54)"
      using scaled_confidence_range[of "round_double c"] c' by (intro round_double_error) simp_all
    ultimately show ?thesis by linarith
  qed
  moreover have "\<bar>round_double c * 10 - c * 10\<bar> \<le> 10 * 2 powi (1 - 54)"
    using confidence_double_error[OF assms] by (rule abs_scale) simp
  moreover have "(2::real) powi (4 - 54) + 2 powi (7 - 54) + 10 * 2 powi (1 - 54) < 1" by simp
  ultimately have "\<bar>round_double (90 + round_double (round_double c * 10)) - (90 + c * 10)\<bar> < 1"
    by linarith
  then have "\<bar>\<lfloor>round_double (90 + round_double (round_double c * 10))\<rfloor> - \<lfloor>90 + c * 10\<rfloor>\<bar> \<le> 1"
    by (rule floor_close)
  then show ?thesis by (simp only: health_normal_formula[OF assms])
qed

lemma health_fault_close:
  assumes "l \<noteq> ''normal''" and "0 \<le> c" and "c \<le> 1"
  shows "\<bar>health_logic l c - max 30 \<lfloor>(1 - c) * 100\<rfloor>\<bar> \<le> 1"
proof -
  note c' = confidence_double_range[OF assms(2,3)]
  have "\<bar>round_double (round_double (1 - round_double c) * 100) - (1 - round_double c) * 100\<bar> < 1 - 1 / 2"
  proof -
    have "\<bar>round_double (1 - round_double c) - (1 - round_double c)\<bar> \<le> 2 powi (1 - 54)"
      using c' by (intro round_double_error) simp_all
    then have "\<bar>round_double (1 - round_double c) * 100 - (1 - round_double c) * 100\<bar>
        \<le> 100 * 2 powi (1 - 54)"
      by (rule abs_scale) simp
    moreover have "\<bar>round_double (round_double (1 - round_double c) * 100)
        - round_double (1 - round_double c) * 100\<bar> \<le> 2 powi (7 - 54)"
      using complement_range[of "round_double c"] c' by (intro round_double_error) simp_all
    moreover have "100 * (2::real) powi (1 - 54) + 2 powi (7 - 54) < 1 - 1 / 2" by simp
    ultimately show ?thesis by linarith
  qed
  moreover have "\<bar>(1 - round_double c) * 100 - (1 - c) * 100\<bar> \<le> 100 * 2 powi (1 - 54)"
  proof (rule abs_scale)
    show "\<bar>(1 - round_double c) - (1 - c)\<bar> \<le> 2 powi (1 - 54)"
      using confidence_double_error[OF assms(2,3)] by linarith
  qed simp
  moreover have "100 * (2::real) powi (1 - 54) < 1 / 2" by simp
  ultimately have "\<bar>round_double (round_double (1 - round_double c) * 100) - (1 - c) * 100\<bar> < 1"
    by linarith
  then have "\<bar>\<lfloor>round_double (round_double (1 - round_double c) * 100)\<rfloor> - \<lfloor>(1 - c) * 100\<rfloor>\<bar> \<le> 1"
    by (rule floor_close)
  then show ?thesis using health_fault_formula[OF assms] by linarith
qed

lemma round_double_samples:
  "round_double (5 / 8) = 5 / 8"
  "round_double (3 / 8) = 3 / 8"
  "round_double (75 / 2) = 75 / 2"
  "round_double (25 / 4) = 25 / 4"
  "round_double (385 / 4) = 385 / 4"
  "round_double (11 / 20) = 2476979795053773 / 4503599627370496"
  "round_double (2026619832316723 / 4503599627370496) = 2026619832316723 / 4503599627370496"
  "round_double (50665495807918075 / 1125899906842624) = 6333186975989759 / 140737488355328"
  "round_double (63 / 100) = 5674535530486825 / 9007199254740992"
  "round_double (5674535530486825 / 9007199254740992) = 5674535530486825 / 9007199254740992"
  "round_double (3332663724254167 / 9007199254740992) = 3332663724254167 / 9007199254740992"
  "round_double (83316593106354175 / 2251799813685248) = 37"
  "round_double (3 / 10) = 5404319552844595 / 18014398509481984"
  "round_double (5404319552844595 / 18014398509481984) = 5404319552844595 / 18014398509481984"
  "round_double (27021597764222975 / 9007199254740992) = 3"
  "round_double 93 = 93"
proof -
  show "round_double (5 / 8) = 5 / 8"
    by (subst round_double_eval[where e = "- 1"]) (simp_all add: round_half_even_def)
  show "round_double (3 / 8) = 3 / 8"
    by (subst round_double_eval[where e = "- 2"]) (simp_all add: round_half_even_def)
  show "round_double (75 / 2) = 75 / 2"
    by (subst round_double_eval[where e = 5]) (simp_all add: round_half_even_def)
  show "round_double (25 / 4) = 25 / 4"
    by (subst round_double_eval[where e = 2]) (simp_all add: round_half_even_def)
  show "round_double (385 / 4) = 385 / 4"
    by (subst round_double_eval[where e = 6]) (simp_all add: round_half_even_def)
  show "round_double (11 / 20) = 2476979795053773 / 4503599627370496"
    by (subst round_double_eval[where e = "- 1"]) (simp_all add: round_half_even_def)
  show "round_double (2026619832316723 / 4503599627370496) = 2026619832316723 / 4503599627370496"
    by (subst round_double_eval[where e = "- 2"]) (simp_all add: round_half_even_def)
  show "round_double (50665495807918075 / 1125899906842624) = 6333186975989759 / 140737488355328"
    by (subst round_double_eval[where e = 5]) (simp_all add: round_half_even_def)
  show "round_double (63 / 100) = 5674535530486825 / 9007199254740992"
    by (subst round_double_eval[where e = "- 1"]) (simp_all add: round_half_even_def)
  show "round_double (5674535530486825 / 9007199254740992) = 5674535530486825 / 9007199254740992"
    by (subst round_double_eval[where e = "- 1"]) (simp_all add: round_half_even_def)
  show "round_double (3332663724254167 / 9007199254740992) = 3332663724254167 / 9007199254740992"
    by (subst round_double_eval[where e = "- 2"]) (simp_all add: round_half_even_def)
  show "round_double (83316593106354175 / 2251799813685248) = 37"
    by (subst round_double_eval[where e = 5]) (simp_all add: round_half_even_def)
  show "round_double (3 / 10) = 5404319552844595 / 18014398509481984"
    by (subst round_double_eval[where e = "- 2"]) (simp_all add: round_half_even_def)
  show "round_double (5404319552844595 / 18014398509481984) = 5404319552844595 / 18014398509481984"
    by (subst round_double_eval[where e = "- 2"]) (simp_all add: round_half_even_def)
  show "round_double (27021597764222975 / 9007199254740992) = 3"
    by (subst round_double_eval[where e = 1]) (simp_all add: round_half_even_def)
  show "round_double 93 = 93"
    by (subst round_double_eval[where e = 6]) (simp_all add: round_half_even_def)
qed

lemma health_samples:
  "health_logic ''knocking'' (5 / 8) = 37"
  "health_logic ''normal'' (5 / 8) = 96"
  "health_logic ''knocking'' (55 / 100) = 44"
  "health_logic ''knocking'' (63 / 100) = 37"
  "health_logic ''normal'' (3 / 10) = 93"
  by (simp_all add: health_logic_def Let_def py_int_def round_double_samples)

section \<open>The claims\<close>

subsection \<open>Health score (C4)\<close>

text \<open>
  C4, as stated, fails. The health score is the integer part of a double, and each
  operation that leads to it rounds. At confidence 0.55 a fault scores 44, where
  \<open>max(30, (1 - confidence) * 100)\<close> is 45: the double nearest to 0.55 lies above it, and
  the product comes out just below 45. At confidence 0.625 a fault scores 37, where the
  formula gives 37.5. At confidence 0.3 the label \<open>normal\<close> scores 93, although the double
  nearest to 0.3 lies below it and \<open>90 + confidence * 10\<close> is just below 93.
\<close>

theorem health_score_formula_counterexample:
  "health_logic ''knocking'' (55 / 100) = 44 \<and>
   max 30 ((1 - 55 / 100) * 100) = (45 :: real) \<and>
   health_logic ''knocking'' (5 / 8) = 37 \<and>
   max 30 ((1 - 5 / 8) * 100) = (75 / 2 :: real) \<and>
   health_logic ''normal'' (3 / 10) = 93 \<and>
   \<lfloor>90 + round_double (3 / 10) * 10\<rfloor> = 92"
proof -
  have exact_normal: "\<lfloor>90 + round_double (3 / 10) * 10\<rfloor> = 92"
    by (simp add: round_double_samples)
  have "max 30 ((1 - 55 / 100) * 100) = (45 :: real)" by simp
  moreover have "max 30 ((1 - 5 / 8) * 100) = (75 / 2 :: real)" by simp
  ultimately show ?thesis
    using exact_normal health_samples(1,3,5) by blast
qed

text \<open>
  C4, amended. For every confidence in \<open>[0, 1]\<close> and every final label the overall
  health is an integer between 0 and 100. For the label \<open>normal\<close> it is the integer part
  of \<open>90 + confidence * 10\<close> as computed in double arithmetic, between 90 and 100, 90 at
  confidence 0 and 100 at confidence 1; otherwise it is the larger of 30 and the integer
  part of \<open>(1 - confidence) * 100\<close> as computed in double arithmetic. In both cases it
  differs by at most 1 from the integer part of the exact value of the formula. The
  response carries this value for its final label.
\<close>

theorem health_score_double_arithmetic:
  assumes "0 \<le> c" and "c \<le> 1"
  shows "0 \<le> health_logic label c \<and> health_logic label c \<le> 100 \<and>
         (label = ''normal'' \<longrightarrow>
            health_logic label c = \<lfloor>round_double (90 + round_double (round_double c * 10))\<rfloor> \<and>
            90 \<le> health_logic label c \<and>
            \<bar>health_logic label c - \<lfloor>90 + c * 10\<rfloor>\<bar> \<le> 1) \<and>
         (label \<noteq> ''normal'' \<longrightarrow>
            health_logic label c = max 30 \<lfloor>round_double (round_double (1 - round_double c) * 100)\<rfloor> \<and>
            30 \<le> health_logic label c \<and>
            \<bar>health_logic label c - max 30 \<lfloor>(1 - c) * 100\<rfloor>\<bar> \<le> 1) \<and>
         round_double (round_double c) = round_double c \<and>
         health_logic ''normal'' 0 = 90 \<and> health_logic ''normal'' 1 = 100 \<and>
         overallHealth (build_response (label0, c, probs) m rng now) =
           health_logic (detectedClass (build_response (label0, c, probs) m rng now)) c"
proof -
  have normal: "label = ''normal'' \<longrightarrow>
            health_logic label c = \<lfloor>round_double (90 + round_double (round_double c * 10))\<rfloor> \<and>
            90 \<le> health_logic label c \<and> health_logic label c \<le> 100 \<and>
            \<bar>health_logic label c - \<lfloor>90 + c * 10\<rfloor>\<bar> \<le> 1"
    using health_normal_formula[OF assms] health_normal_range[OF assms] health_normal_close[OF assms]
    by simp
  have fault: "label \<noteq> ''normal'' \<longrightarrow>
            health_logic label c = max 30 \<lfloor>round_double (round_double (1 - round_double c) * 100)\<rfloor> \<and>
            30 \<le> health_logic label c \<and> health_logic label c \<le> 100 \<and>
            \<bar>health_logic label c - max 30 \<lfloor>(1 - c) * 100\<rfloor>\<bar> \<le> 1"
    using health_fault_formula[OF _ assms] health_fault_bounds[OF _ assms]
      health_fault_close[OF _ assms]
    by blast
  have range: "0 \<le> health_logic label c \<and> health_logic label c \<le> 100"
    using normal fault by (cases "label = ''normal''") auto
  have fixed: "round_double (round_double c) = round_double c"
    using assms by (rule confidence_double_fixed)
  have resp: "overallHealth (build_response (label0, c, probs) m rng now) =
           health_logic (detectedClass (build_response (label0, c, probs) m rng now)) c"
    by (simp add: build_response_fields)
  from normal fault range fixed health_end_points resp show ?thesis by blast
qed

theorem health_score_double_arithmetic_witness:
  "(0::real) \<le> 5 / 8 \<and> (5 / 8 :: real) \<le> 1 \<and>
   health_logic ''normal'' (5 / 8) = \<lfloor>round_double (90 + round_double (round_double (5 / 8) * 10))\<rfloor> \<and>
   health_logic ''normal'' (5 / 8) = 96 \<and>
   health_logic ''knocking'' (5 / 8) = 37 \<and> 30 \<le> health_logic ''knocking'' (5 / 8)"
proof -
  have range: "(0::real) \<le> 5 / 8" "(5 / 8 :: real) \<le> 1" by simp_all
  from health_score_double_arithmetic [OF range, where label = "''normal''"]
  have "health_logic ''normal'' (5 / 8) = \<lfloor>round_double (90 + round_double (round_double (5 / 8) * 10))\<rfloor>"
    by simp
  moreover from health_score_double_arithmetic [OF range, where label = "''knocking''"]
  have "30 \<le> health_logic ''knocking'' (5 / 8)"
    by simp
  ultimately show ?thesis using range by (simp add: health_samples)
qed

subsection \<open>Confidence gate (C2)\<close>

lemma classify_knocking_61:
  "classify_preds (Vector [39/800, 39/800, 39/800, 39/800, 61/100, 39/800, 39/800, 39/800, 39/800]) =
     Inr (''knocking'', 61 / 100,
          [(''normal'', 488 / 10000), (''misfire'', 488 / 10000), (''buka_suara_mesin'', 488 / 10000),
           (''oli_rendah'', 488 / 10000), (''knocking'', 61 / 100), (''pengapian_buruk'', 488 / 10000),
           (''aki_tekor'', 488 / 10000), (''power_steering'', 488 / 10000),
           (''serpentine_belt'', 488 / 10000)])"
  by (simp add: classify_preds_def CLASSES_def clip_def argmax_def py_round_def round_half_even_def
      Let_def upt_rec)



lemma gate_knocking_61:
  "confidence_gate ''knocking'' (61 / 100) =
     (''knocking'',
      [[(''severity'', ''high''), (''component'', ''Ruang Bakar''),
        (''description'', ''Knocking terdeteksi''),
        (''recommendation'', ''Gunakan BBM oktan lebih tinggi dan cek timing pengapian''),
        (''id'', ''knocking'')]])"
  by (simp add: confidence_gate_cases ISSUE_MAP_def threshold_value)

lemma classify_knocking_dyadic:
  "classify_preds (Vector [3/64, 3/64, 3/64, 3/64, 5/8, 3/64, 3/64, 3/64, 3/64]) =
     Inr (''knocking'', 5 / 8,
          [(''normal'', 469 / 10000), (''misfire'', 469 / 10000), (''buka_suara_mesin'', 469 / 10000),
           (''oli_rendah'', 469 / 10000), (''knocking'', 5 / 8), (''pengapian_buruk'', 469 / 10000),
           (''aki_tekor'', 469 / 10000), (''power_steering'', 469 / 10000),
           (''serpentine_belt'', 469 / 10000)])"
  by (simp add: classify_preds_def CLASSES_def clip_def argmax_def py_round_def round_half_even_def
      Let_def upt_rec)





subsection \<open>Classes without an entry in the issue map (C9)\<close>

lemma classify_aki_tekor_92:
  "classify_preds (Vector [1/100, 1/100, 1/100, 1/100, 1/100, 1/100, 92/100, 1/100, 1/100]) =
     Inr (''aki_tekor'', 92 / 100,
          [(''normal'', 1 / 100), (''misfire'', 1 / 100), (''buka_suara_mesin'', 1 / 100),
           (''oli_rendah'', 1 / 100), (''knocking'', 1 / 100), (''pengapian_buruk'', 1 / 100),
           (''aki_tekor'', 92 / 100), (''power_steering'', 1 / 100),
           (''serpentine_belt'', 1 / 100)])"
  by (simp add: classify_preds_def CLASSES_def clip_def argmax_def py_round_def round_half_even_def
      Let_def upt_rec)

lemma gate_not_key:
  "label \<notin> set (map fst ISSUE_MAP) \<Longrightarrow> confidence_gate label c = (''normal'', [])"
  by (simp add: confidence_gate_cases map_of_eq_None_iff[symmetric] del: map_of_eq_None_iff)

lemma gate_result:
  "confidence_gate label c = (label, snd (confidence_gate label c)) \<and>
     label \<in> set (map fst ISSUE_MAP) \<and> VALID_CONFIDENCE_THRESHOLD \<le> c
   \<or> confidence_gate label c = (''normal'', [])"
  by (cases "map_of ISSUE_MAP label")
     (auto simp: confidence_gate_cases dest: map_of_SomeD intro: rev_image_eqI)

text \<open>
  C9. The class catalogue has nine classes and the issue map has the five keys
  \<open>misfire\<close>, \<open>buka_suara_mesin\<close>, \<open>oli_rendah\<close>, \<open>knocking\<close>, \<open>pengapian_buruk\<close>. So
  whenever the maximum-score class is \<open>aki_tekor\<close>, \<open>power_steering\<close> or
  \<open>serpentine_belt\<close>, whatever its confidence, the response has detected class
  \<open>normal\<close>, no issues and a health score of at least 90.
\<close>

theorem unmapped_class_reported_normal:
  assumes "fst (run_inference env fs audio) = Inr (label, c, probs)"
    and "label \<in> {''aki_tekor'', ''power_steering'', ''serpentine_belt''}"
  shows "length CLASSES = 9 \<and>
         map fst ISSUE_MAP =
           [''misfire'', ''buka_suara_mesin'', ''oli_rendah'', ''knocking'', ''pengapian_buruk''] \<and>
         (\<exists>r. fst (analyze_audio env fs audio m rng now) = Inr r \<and>
              detectedClass r = ''normal'' \<and> issues r = [] \<and> 90 \<le> overallHealth r)"
proof -
  let ?r = "build_response (label, c, probs) m rng now"
  have resp: "fst (analyze_audio env fs audio m rng now) = Inr ?r"
    using assms(1) by (simp add: analyze_audio_response)
  obtain preds where "classify_preds preds = Inr (label, c, probs)"
    using run_inference_Inr[OF assms(1)] by blast
  then have c: "0 \<le> c" "c \<le> 1"
    using classify_preds_Inr by fastforce+
  have "label \<notin> set (map fst ISSUE_MAP)"
    using assms(2) by (auto simp: issue_map_keys)
  then have gate: "confidence_gate label c = (''normal'', [])"
    by (rule gate_not_key)
  have "90 \<le> health_logic ''normal'' c"
    using health_normal_range[OF c] by simp
  then have "detectedClass ?r = ''normal'' \<and> issues ?r = [] \<and> 90 \<le> overallHealth ?r"
    by (simp add: build_response_fields gate)
  with resp have "\<exists>r. fst (analyze_audio env fs audio m rng now) = Inr r \<and>
              detectedClass r = ''normal'' \<and> issues r = [] \<and> 90 \<le> overallHealth r"
    by blast
  moreover have "length CLASSES = 9" by (simp add: CLASSES_def)
  ultimately show ?thesis using issue_map_keys by simp
qed

theorem unmapped_class_reported_normal_witness:
  "fst (run_inference
          (sample_env 0 (Vector [1/100, 1/100, 1/100, 1/100, 1/100, 1/100, 92/100, 1/100, 1/100]))
          Map.empty [26, 69]) =
     Inr (''aki_tekor'', 92 / 100,
          [(''normal'', 1 / 100), (''misfire'', 1 / 100), (''buka_suara_mesin'', 1 / 100),
           (''oli_rendah'', 1 / 100), (''knocking'', 1 / 100), (''pengapian_buruk'', 1 / 100),
           (''aki_tekor'', 92 / 100), (''power_steering'', 1 / 100),
           (''serpentine_belt'', 1 / 100)]) \<and>
   detectedClass (projr (fst (analyze_audio
          (sample_env 0 (Vector [1/100, 1/100, 1/100, 1/100, 1/100, 1/100, 92/100, 1/100, 1/100]))
          Map.empty [26, 69] ''deep'' zero_jitter ''2025-01-01T00:00:00''))) = ''normal'' \<and>
   90 \<le> overallHealth (projr (fst (analyze_audio
          (sample_env 0 (Vector [1/100, 1/100, 1/100, 1/100, 1/100, 1/100, 92/100, 1/100, 1/100]))
          Map.empty [26, 69] ''deep'' zero_jitter ''2025-01-01T00:00:00'')))"
proof -
  let ?env = "sample_env 0 (Vector [1/100, 1/100, 1/100, 1/100, 1/100, 1/100, 92/100, 1/100, 1/100])"
  let ?probs = "[(''normal'', 1 / 100), (''misfire'', 1 / 100), (''buka_suara_mesin'', 1 / 100),
           (''oli_rendah'', 1 / 100), (''knocking'', 1 / 100), (''pengapian_buruk'', 1 / 100),
           (''aki_tekor'', 92 / 100), (''power_steering'', 1 / 100),
           (''serpentine_belt'', 1 / 100 :: real)]"
  have run: "fst (run_inference ?env Map.empty [26, 69]) = Inr (''aki_tekor'', 92 / 100, ?probs)"
    by (simp only: run_inference_sample_ok classify_aki_tekor_92)
  have member: "''aki_tekor'' \<in> {''aki_tekor'', ''power_steering'', ''serpentine_belt''}"
    by simp
  from unmapped_class_reported_normal [OF run member, where m = "''deep''" and rng = zero_jitter
      and now = "''2025-01-01T00:00:00''"]
  have "detectedClass (projr (fst (analyze_audio ?env Map.empty [26, 69] ''deep'' zero_jitter
          ''2025-01-01T00:00:00''))) = ''normal'' \<and>
        90 \<le> overallHealth (projr (fst (analyze_audio ?env Map.empty [26, 69] ''deep'' zero_jitter
          ''2025-01-01T00:00:00'')))"
    by auto
  with run show ?thesis by (rule conjI)
qed

subsection \<open>Bimodal health score (C10)\<close>

text \<open>
  C10. The health score is bimodal: every response whose detected class is not
  \<open>normal\<close> has a health score in \<open>[30, 40]\<close>, every response whose detected class is
  \<open>normal\<close> has one in \<open>[90, 100]\<close>, and none has a score strictly between 40 and 90.
\<close>

theorem health_score_bimodal:
  assumes "fst (analyze_audio env fs audio m rng now) = Inr r"
  shows "(detectedClass r \<noteq> ''normal'' \<longrightarrow> 30 \<le> overallHealth r \<and> overallHealth r \<le> 40) \<and>
         (detectedClass r = ''normal'' \<longrightarrow> 90 \<le> overallHealth r \<and> overallHealth r \<le> 100) \<and>
         \<not> (40 < overallHealth r \<and> overallHealth r < 90)"
proof -
  obtain label c probs where inferred:
    "(case fst (run_inference env fs audio) of Inr t \<Rightarrow> t | Inl e \<Rightarrow> (''unknown'', 0, [])) = (label, c, probs)"
    by (metis prod_cases3)
  have c: "0 \<le> c \<and> c \<le> 1"
  proof (cases "fst (run_inference env fs audio)")
    case (Inl e)
    with inferred show ?thesis by simp
  next
    case (Inr t)
    with inferred have "fst (run_inference env fs audio) = Inr (label, c, probs)" by simp
    then obtain preds where "classify_preds preds = Inr (label, c, probs)"
      using run_inference_Inr by blast
    then show ?thesis using classify_preds_Inr by fastforce
  qed
  have r: "r = build_response (label, c, probs) m rng now"
    using assms inferred by (simp add: analyze_audio_response)
  from gate_result[of label c] show ?thesis
  proof
    assume accept: "confidence_gate label c = (label, snd (confidence_gate label c)) \<and>
      label \<in> set (map fst ISSUE_MAP) \<and> VALID_CONFIDENCE_THRESHOLD \<le> c"
    then have fault: "label \<noteq> ''normal''"
      by (auto simp: issue_map_keys)
    have final: "fst (confidence_gate label c) = label"
      using accept by (metis fst_conv)
    have "30 \<le> health_logic label c \<and> health_logic label c \<le> 40"
      using fault accept c by (intro health_fault_range) simp_all
    then show ?thesis
      using fault by (simp add: r build_response_fields final)
  next
    assume reject: "confidence_gate label c = (''normal'', [])"
    have "90 \<le> health_logic ''normal'' c \<and> health_logic ''normal'' c \<le> 100"
      using c by (intro health_normal_range) simp_all
    then show ?thesis
      by (simp add: r build_response_fields reject)
  qed
qed

theorem health_score_bimodal_witness:
  "detectedClass (projr (fst (analyze_audio
          (sample_env 0 (Vector [39/800, 39/800, 39/800, 39/800, 61/100, 39/800, 39/800, 39/800, 39/800]))
          Map.empty [26, 69] ''quick'' zero_jitter ''2025-01-01T00:00:00''))) = ''knocking'' \<and>
   30 \<le> overallHealth (projr (fst (analyze_audio
          (sample_env 0 (Vector [39/800, 39/800, 39/800, 39/800, 61/100, 39/800, 39/800, 39/800, 39/800]))
          Map.empty [26, 69] ''quick'' zero_jitter ''2025-01-01T00:00:00''))) \<and>
   overallHealth (projr (fst (analyze_audio
          (sample_env 0 (Vector [39/800, 39/800, 39/800, 39/800, 61/100, 39/800, 39/800, 39/800, 39/800]))
          Map.empty [26, 69] ''quick'' zero_jitter ''2025-01-01T00:00:00''))) \<le> 40"
proof -
  let ?out = "fst (analyze_audio
          (sample_env 0 (Vector [39/800, 39/800, 39/800, 39/800, 61/100, 39/800, 39/800, 39/800, 39/800]))
          Map.empty [26, 69] ''quick'' zero_jitter ''2025-01-01T00:00:00'')"
  have out: "?out = Inr (projr ?out)"
    by (simp add: analyze_audio_response)
  have cls: "detectedClass (projr ?out) = ''knocking''"
    by (simp add: analyze_audio_response run_inference_sample_ok classify_knocking_61
        build_response_fields gate_knocking_61)
  from health_score_bimodal [OF out] cls show ?thesis by simp
qed

subsection \<open>Padding and truncation (C5)\<close>

lemma target_len_eq: "nat (py_int (TARGET_DURATION * real sr)) = 3 * sr"
proof -
  have "TARGET_DURATION * real sr = of_int (int (3 * sr))"
    by (simp add: TARGET_DURATION_def)
  then have "py_int (TARGET_DURATION * real sr) = int (3 * sr)"
    by (simp only: py_int_def floor_of_int ceiling_of_int if_cancel)
  then show ?thesis by simp
qed

text \<open>
  C5, as stated, fails in the direction of the cut: a longer buffer is not truncated from
  the start. The slice \<open>y[:target_len]\<close> keeps the start and drops the end: at sample
  rate 1 the buffer \<open>[1, 2, 3, 4]\<close> becomes \<open>[1, 2, 3]\<close>, where removing samples from
  the start would leave \<open>[2, 3, 4]\<close>.
\<close>

theorem truncation_direction_counterexample:
  "3 * 1 < length [1, 2, 3, 4 :: real] \<and>
   fix_length [1, 2, 3, 4] 1 = [1, 2, 3] \<and>
   drop (length [1, 2, 3, 4 :: real] - 3 * 1) [1, 2, 3, 4 :: real] = [2, 3, 4] \<and>
   fix_length [1, 2, 3, 4] 1 \<noteq> drop (length [1, 2, 3, 4 :: real] - 3 * 1) [1, 2, 3, 4]"
  by (simp add: fix_length_def TARGET_DURATION_def py_int_def Let_def)

text \<open>
  C5, amended. Padding and truncation: the buffer \<open>extract_features\<close> hands to the feature
  transform has exactly \<open>TARGET_DURATION * sample_rate\<close> samples. A shorter buffer is
  the input followed by zeros (trailing silence); a longer one is truncated at the end:
  its first \<open>TARGET_DURATION * sample_rate\<close> samples are kept and the rest is dropped.
\<close>

theorem fix_length_exact:
  "real (length (fix_length y sr)) = TARGET_DURATION * real sr \<and>
   length (fix_length y sr) = 3 * sr \<and>
   (length y < 3 * sr \<longrightarrow> fix_length y sr = y @ replicate (3 * sr - length y) 0) \<and>
   (3 * sr \<le> length y \<longrightarrow> fix_length y sr = take (3 * sr) y) \<and>
   extract_features env wav_bytes =
     (case sf_read env wav_bytes of
        Inl e \<Rightarrow> Inl e
      | Inr (samples, rate) \<Rightarrow> mfcc_image env (fix_length (to_mono samples) rate) rate)"
proof -
  have len: "length (fix_length y sr) = 3 * sr"
    by (simp add: fix_length_def target_len_eq Let_def)
  have short: "length y < 3 * sr \<longrightarrow> fix_length y sr = y @ replicate (3 * sr - length y) 0"
    by (simp add: fix_length_def target_len_eq Let_def)
  have long: "3 * sr \<le> length y \<longrightarrow> fix_length y sr = take (3 * sr) y"
    by (simp add: fix_length_def target_len_eq Let_def)
  have "real (length (fix_length y sr)) = TARGET_DURATION * real sr"
    by (simp add: len TARGET_DURATION_def)
  with len short long show ?thesis
    by (simp add: extract_features_def)
qed

theorem fix_length_exact_witness:
  "length [1 / 2, 1 / 4 :: real] < 3 * 1 \<and> fix_length [1 / 2, 1 / 4] 1 = [1 / 2, 1 / 4, 0] \<and>
   3 * 1 \<le> length [1, 2, 3, 4 :: real] \<and> fix_length [1, 2, 3, 4] 1 = [1, 2, 3]"
  using fix_length_exact [of "[1 / 2, 1 / 4]" 1] fix_length_exact [of "[1, 2, 3, 4]" 1]
  by (simp add: numeral_3_eq_3)

subsection \<open>Sum of the class probabilities (C3)\<close>

lemma classify_uniform:
  "classify_preds (Vector [1, 1, 1, 1, 1, 1, 1, 1, 1]) =
     Inr (''normal'', 1 / 9,
          [(''normal'', 1111 / 10000), (''misfire'', 1111 / 10000),
           (''buka_suara_mesin'', 1111 / 10000), (''oli_rendah'', 1111 / 10000),
           (''knocking'', 1111 / 10000), (''pengapian_buruk'', 1111 / 10000),
           (''aki_tekor'', 1111 / 10000), (''power_steering'', 1111 / 10000),
           (''serpentine_belt'', 1111 / 10000)])"
  by (simp add: classify_preds_def CLASSES_def clip_def argmax_def py_round_def round_half_even_def
      Let_def upt_rec)

text \<open>
  C3, as stated, fails: the dictionary in the response holds each probability rounded to
  four decimals, and the rounded values need not sum to 1 within \<open>1e-6\<close>. For nine equal
  scores every entry is \<open>0.1111\<close> and the sum is \<open>0.9999\<close>.
\<close>

theorem class_probabilities_sum_counterexample:
  "\<not> \<bar>sum_list (map snd (classProbabilities (projr (fst (analyze_audio
          (sample_env 0 (Vector [1, 1, 1, 1, 1, 1, 1, 1, 1]))
          Map.empty [26, 69] ''quick'' zero_jitter ''2025-01-01T00:00:00''))))) - 1\<bar> \<le> 1 / 10 ^ 6"
  by (simp add: analyze_audio_response run_inference_sample_ok classify_uniform build_response_fields)

text \<open>
  C3, amended. For every score vector of the catalogue's length (whatever the sign of its
  entries), each score is clipped into \<open>[1e-6, 1.0]\<close> and the clipped vector is divided
  by its sum: this distribution sums to exactly 1. The response contains it with each
  entry rounded to four decimals, one entry per class, so the returned values sum to 1
  within \<open>9 * 0.00005 = 4.5e-4\<close>.
\<close>

theorem class_probabilities_sum_rounded:
  assumes "length v = length CLASSES"
  shows "\<exists>label c probs normed.
           classify_preds (Vector v) = Inr (label, c, probs) \<and>
           normed = map (\<lambda>x. x / sum_list (map (\<lambda>x. clip x (1 / 10 ^ 6) 1) v))
                        (map (\<lambda>x. clip x (1 / 10 ^ 6) 1) v) \<and>
           sum_list normed = 1 \<and>
           probs = zip CLASSES (map (\<lambda>p. py_round p 4) normed) \<and>
           \<bar>sum_list (map snd probs) - 1\<bar> \<le> 9 * (5 / 10 ^ 5) \<and>
           classProbabilities (build_response (label, c, probs) m rng now) = probs"
proof -
  define normed where "normed = map (\<lambda>x. x / sum_list (map (\<lambda>x. clip x (1 / 10 ^ 6) 1) v))
                        (map (\<lambda>x. clip x (1 / 10 ^ 6) 1) v)"
  define probs where "probs = zip CLASSES (map (\<lambda>p. py_round p 4) normed)"
  obtain i where cls: "classify_preds (Vector v) = Inr (CLASSES ! i, normed ! i, probs)"
    using classify_preds_Vector[OF assms] unfolding normed_def probs_def by blast
  have len: "length normed = length CLASSES"
    by (simp add: normed_def assms)
  have "v \<noteq> []" using assms by (auto simp: CLASSES_def)
  then have total: "sum_list normed = 1"
    unfolding normed_def by (rule normed_sum)
  have "map snd probs = map (\<lambda>p. py_round p 4) normed"
    by (simp add: probs_def len)
  moreover have "\<bar>sum_list (map (\<lambda>p. py_round p 4) normed) - sum_list normed\<bar>
      \<le> real (length normed) * (5 / 10 ^ 5)"
    by (rule sum_list_error) (rule ballI, rule py_round_4_error)
  moreover have "real (length normed) = 9"
    by (simp add: len CLASSES_def)
  ultimately have close: "\<bar>sum_list (map snd probs) - 1\<bar> \<le> 9 * (5 / 10 ^ 5)"
    using total by simp
  show ?thesis
  proof (intro exI conjI)
    show "classify_preds (Vector v) = Inr (CLASSES ! i, normed ! i, probs)" by (rule cls)
    show "normed = map (\<lambda>x. x / sum_list (map (\<lambda>x. clip x (1 / 10 ^ 6) 1) v))
                        (map (\<lambda>x. clip x (1 / 10 ^ 6) 1) v)" by (rule normed_def)
    show "sum_list normed = 1" by (rule total)
    show "probs = zip CLASSES (map (\<lambda>p. py_round p 4) normed)" by (rule probs_def)
    show "\<bar>sum_list (map snd probs) - 1\<bar> \<le> 9 * (5 / 10 ^ 5)" by (rule close)
    show "classProbabilities (build_response (CLASSES ! i, normed ! i, probs) m rng now) = probs"
      by (simp add: build_response_fields)
  qed
qed

theorem class_probabilities_sum_rounded_witness:
  "length [1, 1, 1, 1, 1, 1, 1, 1, 1 :: real] = length CLASSES \<and>
   \<bar>sum_list (map snd (snd (snd (projr (classify_preds (Vector [1, 1, 1, 1, 1, 1, 1, 1, 1])))))) - 1\<bar>
     \<le> 9 * (5 / 10 ^ 5)"
proof -
  have len: "length [1, 1, 1, 1, 1, 1, 1, 1, 1 :: real] = length CLASSES"
    by (simp add: CLASSES_def)
  from class_probabilities_sum_rounded [OF len, where m = "''quick''" and rng = zero_jitter and now = "''t''"]
  obtain label c probs where
    "classify_preds (Vector [1, 1, 1, 1, 1, 1, 1, 1, 1]) = Inr (label, c, probs)"
    "\<bar>sum_list (map snd probs) - 1\<bar> \<le> 9 * (5 / 10 ^ 5)"
    by blast
  then have "\<bar>sum_list (map snd (snd (snd (projr (classify_preds (Vector [1, 1, 1, 1, 1, 1, 1, 1, 1])))))) - 1\<bar>
     \<le> 9 * (5 / 10 ^ 5)"
    by simp
  with len show ?thesis by (rule conjI)
qed

subsection \<open>Failures of the inference (C1)\<close>

lemma classify_preds_bad_shape:
  "ndim preds \<noteq> 1 \<or> length (elems preds) \<noteq> length CLASSES \<Longrightarrow> classify_preds preds = Inl ValueError"
  by (simp add: classify_preds_def)

lemma py_round_zero: "py_round 0 n = 0"
  by (simp add: py_round_def round_half_even_def)

lemma fallback_response:
  "build_response (''unknown'', 0, []) m rng now =
     \<lparr>overallHealth = 90, detectedClass = ''normal'', confidence = 0, classProbabilities = [],
      issues = [],
      vibrationData = generate_vibration_data (if m = ''quick'' then 100 else 300) rng,
      timestamp = now, mode = m\<rparr>"
proof -
  have "''unknown'' \<notin> set (map fst ISSUE_MAP)"
    by (simp add: issue_map_keys)
  then have "confidence_gate ''unknown'' 0 = (''normal'', [])"
    by (rule gate_not_key)
  moreover have "health_logic ''normal'' 0 = 90"
    using health_end_points by simp
  ultimately show ?thesis
    by (simp add: build_response_def py_round_zero)
qed

text \<open>
  C1, as stated, fails: \<open>analyze_audio\<close> wraps \<open>run_inference\<close> in a \<open>try\<close> that catches
  every exception. With a decoder that exits with status 1, and with a model that returns
  three scores instead of nine, \<open>run_inference\<close> raises and the endpoint still answers
  with a successful result: class \<open>normal\<close>, health 90.
\<close>

theorem inference_failure_counterexample:
  "fst (run_inference (sample_env 1 (Vector [])) Map.empty [26, 69]) = Inl (CalledProcessError 1) \<and>
   \<not> isl (fst (analyze_audio (sample_env 1 (Vector [])) Map.empty [26, 69] ''quick'' zero_jitter
              ''2025-01-01T00:00:00'')) \<and>
   detectedClass (projr (fst (analyze_audio (sample_env 1 (Vector [])) Map.empty [26, 69] ''quick''
              zero_jitter ''2025-01-01T00:00:00''))) = ''normal'' \<and>
   overallHealth (projr (fst (analyze_audio (sample_env 1 (Vector [])) Map.empty [26, 69] ''quick''
              zero_jitter ''2025-01-01T00:00:00''))) = 90 \<and>
   fst (run_inference (sample_env 0 (Vector [1 / 2, 1 / 4, 1 / 4])) Map.empty [26, 69]) = Inl ValueError \<and>
   \<not> isl (fst (analyze_audio (sample_env 0 (Vector [1 / 2, 1 / 4, 1 / 4])) Map.empty [26, 69] ''quick''
              zero_jitter ''2025-01-01T00:00:00'')) \<and>
   detectedClass (projr (fst (analyze_audio (sample_env 0 (Vector [1 / 2, 1 / 4, 1 / 4])) Map.empty
              [26, 69] ''quick'' zero_jitter ''2025-01-01T00:00:00''))) = ''normal'' \<and>
   overallHealth (projr (fst (analyze_audio (sample_env 0 (Vector [1 / 2, 1 / 4, 1 / 4])) Map.empty
              [26, 69] ''quick'' zero_jitter ''2025-01-01T00:00:00''))) = 90"
proof -
  have decode: "fst (run_inference (sample_env 1 (Vector [])) Map.empty [26, 69]) = Inl (CalledProcessError 1)"
    by (simp add: run_inference_webm_fail webm_to_wav_sample_fail)
  have shape: "fst (run_inference (sample_env 0 (Vector [1 / 2, 1 / 4, 1 / 4])) Map.empty [26, 69]) = Inl ValueError"
    by (simp add: run_inference_sample_ok classify_preds_bad_shape CLASSES_def)
  have caught_decode:
    "fst (analyze_audio (sample_env 1 (Vector [])) Map.empty [26, 69] ''quick'' zero_jitter
       ''2025-01-01T00:00:00'') =
     Inr (build_response (''unknown'', 0, []) ''quick'' zero_jitter ''2025-01-01T00:00:00'')"
    by (simp only: analyze_audio_response decode sum.case)
  have caught_shape:
    "fst (analyze_audio (sample_env 0 (Vector [1 / 2, 1 / 4, 1 / 4])) Map.empty [26, 69] ''quick''
       zero_jitter ''2025-01-01T00:00:00'') =
     Inr (build_response (''unknown'', 0, []) ''quick'' zero_jitter ''2025-01-01T00:00:00'')"
    by (simp only: analyze_audio_response shape sum.case)
  show ?thesis
    unfolding caught_decode caught_shape fallback_response
    using decode shape by simp
qed

text \<open>
  C1, amended. When the conversion or the read of the audio fails, when feature extraction
  or the model raises, or when the squeezed model output is not a vector of the
  catalogue's length, \<open>run_inference\<close> raises and returns nothing. \<open>analyze_audio\<close>
  catches the exception and answers with a successful result that carries no error:
  detected class \<open>normal\<close>, confidence 0, health 90, no class probabilities, no issues.
\<close>

theorem inference_failure_falls_back_to_normal:
  assumes "fst (webm_to_wav env fs audio) = Inl e \<or>
           (\<exists>wav. fst (webm_to_wav env fs audio) = Inr wav \<and>
              (extract_features env wav = Inl e \<or>
               (\<exists>features. extract_features env wav = Inr features \<and>
                  (predict_squeezed env features = Inl e \<or>
                   (\<exists>preds. predict_squeezed env features = Inr preds \<and> e = ValueError \<and>
                      (ndim preds \<noteq> 1 \<or> length (elems preds) \<noteq> length CLASSES))))))"
  shows "fst (run_inference env fs audio) = Inl e \<and>
         fst (analyze_audio env fs audio m rng now) =
           Inr \<lparr>overallHealth = 90, detectedClass = ''normal'', confidence = 0,
                classProbabilities = [], issues = [],
                vibrationData = generate_vibration_data (if m = ''quick'' then 100 else 300) rng,
                timestamp = now, mode = m\<rparr>"
proof -
  have raised: "fst (run_inference env fs audio) = Inl e"
    using assms
    by (auto simp: run_inference_webm_fail run_inference_after_decode classify_preds_bad_shape)
  then show ?thesis
    by (simp add: analyze_audio_response fallback_response)
qed

theorem inference_failure_falls_back_to_normal_witness:
  "fst (webm_to_wav (sample_env 1 (Vector [])) Map.empty [26, 69]) = Inl (CalledProcessError 1) \<and>
   fst (analyze_audio (sample_env 1 (Vector [])) Map.empty [26, 69] ''deep'' zero_jitter ''t'') =
     Inr \<lparr>overallHealth = 90, detectedClass = ''normal'', confidence = 0,
          classProbabilities = [], issues = [],
          vibrationData = generate_vibration_data 300 zero_jitter,
          timestamp = ''t'', mode = ''deep''\<rparr>"
proof -
  have fail: "fst (webm_to_wav (sample_env 1 (Vector [])) Map.empty [26, 69]) = Inl (CalledProcessError 1)"
    by (simp add: webm_to_wav_sample_fail)
  from inference_failure_falls_back_to_normal [OF disjI1, OF fail, where m = "''deep''"
      and rng = zero_jitter and now = "''t''"] fail
  show ?thesis by simp
qed

subsection \<open>Determinism of the result (C8)\<close>

lemma vibration_length: "length (generate_vibration_data n rng) = n"
  by (simp add: generate_vibration_data_def)

lemma vibration_time:
  "map time (generate_vibration_data n rng) = map (\<lambda>i. py_round (real i * (1 / 100)) 4) [0..<n]"
  by (simp add: generate_vibration_data_def comp_def)

lemma vibration_frequency:
  "map frequency (generate_vibration_data n rng) = map (\<lambda>i. 50 + sin (real i * (5 / 100)) * 40) [0..<n]"
  by (simp add: generate_vibration_data_def comp_def)

lemma vibration_amplitude:
  "map amplitude (generate_vibration_data n rng) =
     map (\<lambda>i. sin (real i * (1 / 10)) + rng i * (3 / 10)) [0..<n]"
  by (simp add: generate_vibration_data_def comp_def)

lemma vibration_first_amplitude:
  "0 < n \<Longrightarrow> amplitude (hd (generate_vibration_data n rng)) = rng 0 * (3 / 10)"
  by (simp add: generate_vibration_data_def upt_conv_Cons)

text \<open>
  C8, as stated, fails: \<open>generate_vibration_data\<close> adds \<open>np.random.rand() * 0.3\<close> to every
  amplitude. Two runs on the same nine scores, the same mode and even the same clock
  reading, one in which the generator yields 0 and one in which it yields 0.5, return
  different results: the first amplitude is 0 in one and 0.15 in the other.
\<close>

theorem decision_determinism_counterexample:
  "fst (analyze_audio (sample_env 0 (Vector [1, 1, 1, 1, 1, 1, 1, 1, 1])) Map.empty [26, 69] ''quick''
          zero_jitter ''2025-01-01T00:00:00'') \<noteq>
   fst (analyze_audio (sample_env 0 (Vector [1, 1, 1, 1, 1, 1, 1, 1, 1])) Map.empty [26, 69] ''quick''
          half_jitter ''2025-01-01T00:00:00'') \<and>
   amplitude (hd (vibrationData (projr (fst (analyze_audio
          (sample_env 0 (Vector [1, 1, 1, 1, 1, 1, 1, 1, 1])) Map.empty [26, 69] ''quick''
          zero_jitter ''2025-01-01T00:00:00''))))) = 0 \<and>
   amplitude (hd (vibrationData (projr (fst (analyze_audio
          (sample_env 0 (Vector [1, 1, 1, 1, 1, 1, 1, 1, 1])) Map.empty [26, 69] ''quick''
          half_jitter ''2025-01-01T00:00:00''))))) = 15 / 100"
proof -
  let ?a = "fst (analyze_audio (sample_env 0 (Vector [1, 1, 1, 1, 1, 1, 1, 1, 1])) Map.empty [26, 69]
      ''quick'' zero_jitter ''2025-01-01T00:00:00'')"
  let ?b = "fst (analyze_audio (sample_env 0 (Vector [1, 1, 1, 1, 1, 1, 1, 1, 1])) Map.empty [26, 69]
      ''quick'' half_jitter ''2025-01-01T00:00:00'')"
  have a: "amplitude (hd (vibrationData (projr ?a))) = 0"
    by (simp add: analyze_audio_response run_inference_sample_ok classify_uniform
        build_response_fields vibration_first_amplitude zero_jitter_def)
  have b: "amplitude (hd (vibrationData (projr ?b))) = 15 / 100"
    by (simp add: analyze_audio_response run_inference_sample_ok classify_uniform
        build_response_fields vibration_first_amplitude half_jitter_def)
  have "?a \<noteq> ?b"
  proof
    assume "?a = ?b"
    then have "amplitude (hd (vibrationData (projr ?a))) = amplitude (hd (vibrationData (projr ?b)))"
      by (rule arg_cong)
    with a b show False by simp
  qed
  with a b show ?thesis by simp
qed

text \<open>
  C8, amended. For an identical inference outcome and an identical mode, two runs agree on
  the overall health, the detected class, the confidence, the class probabilities, the
  issues and the mode, and their vibration series have the same length (100 for
  \<open>quick\<close>, 300 otherwise), the same times and the same frequencies. The amplitudes
  carry the draws of the random generator (amplitude \<open>i\<close> is \<open>sin(i * 0.1)\<close> plus 0.3
  times the \<open>i\<close>-th draw) and the timestamp is the clock reading, so these two parts
  differ from run to run.
\<close>

theorem decision_deterministic_up_to_jitter:
  "overallHealth (build_response (label, c, probs) m rng now) =
     overallHealth (build_response (label, c, probs) m rng' now') \<and>
   detectedClass (build_response (label, c, probs) m rng now) =
     detectedClass (build_response (label, c, probs) m rng' now') \<and>
   confidence (build_response (label, c, probs) m rng now) =
     confidence (build_response (label, c, probs) m rng' now') \<and>
   classProbabilities (build_response (label, c, probs) m rng now) =
     classProbabilities (build_response (label, c, probs) m rng' now') \<and>
   issues (build_response (label, c, probs) m rng now) =
     issues (build_response (label, c, probs) m rng' now') \<and>
   mode (build_response (label, c, probs) m rng now) =
     mode (build_response (label, c, probs) m rng' now') \<and>
   length (vibrationData (build_response (label, c, probs) m rng now)) =
     (if m = ''quick'' then 100 else 300) \<and>
   length (vibrationData (build_response (label, c, probs) m rng' now')) =
     (if m = ''quick'' then 100 else 300) \<and>
   map time (vibrationData (build_response (label, c, probs) m rng now)) =
     map time (vibrationData (build_response (label, c, probs) m rng' now')) \<and>
   map frequency (vibrationData (build_response (label, c, probs) m rng now)) =
     map frequency (vibrationData (build_response (label, c, probs) m rng' now')) \<and>
   map amplitude (vibrationData (build_response (label, c, probs) m rng now)) =
     map (\<lambda>i. sin (real i * (1 / 10)) + rng i * (3 / 10)) [0..<(if m = ''quick'' then 100 else 300)] \<and>
   timestamp (build_response (label, c, probs) m rng now) = now \<and>
   fst (analyze_audio env fs audio m rng now) =
     Inr (build_response
            (case fst (run_inference env fs audio) of Inr t \<Rightarrow> t | Inl e \<Rightarrow> (''unknown'', 0, []))
            m rng now)"
  unfolding build_response_fields vibration_length vibration_time vibration_frequency
    vibration_amplitude analyze_audio_response
  by simp

theorem decision_deterministic_up_to_jitter_witness:
  "detectedClass (build_response (''knocking'', 61 / 100, []) ''deep'' zero_jitter ''t1'') =
     detectedClass (build_response (''knocking'', 61 / 100, []) ''deep'' half_jitter ''t2'') \<and>
   overallHealth (build_response (''knocking'', 61 / 100, []) ''deep'' zero_jitter ''t1'') =
     overallHealth (build_response (''knocking'', 61 / 100, []) ''deep'' half_jitter ''t2'') \<and>
   length (vibrationData (build_response (''knocking'', 61 / 100, []) ''deep'' half_jitter ''t2'')) = 300"
  using decision_deterministic_up_to_jitter [where label = "''knocking''" and c = "61 / 100"
      and probs = "[]" and m = "''deep''" and rng = zero_jitter and rng' = half_jitter
      and now = "''t1''" and now' = "''t2''"]
  by simp

subsection \<open>Mode validation (C6)\<close>

lemma main_rejects_unknown_mode:
  assumes "m \<noteq> ''quick''" and "m \<noteq> ''deep''"
  shows "main_analyze_audio dec file m =
           Inl (HTTPException 400 (''Mode harus 'quick' atau 'deep'' @ [CHR 0x27]))"
  using assms by (simp add: main_analyze_audio_def)

lemma main_rejects_fast:
  "main_analyze_audio dec file ''fast'' =
     Inl (HTTPException 400 (''Mode harus 'quick' atau 'deep'' @ [CHR 0x27]))"
  by (rule main_rejects_unknown_mode) simp_all

lemma analyze_audio_never_rejects: "\<not> isl (fst (analyze_audio env fs audio m rng now))"
  by (simp add: analyze_audio_response)

lemma analyze_audio_runs_conversion:
  "snd (analyze_audio env fs audio m rng now) = snd (webm_to_wav env fs audio)"
  by (cases "webm_to_wav env fs audio")
     (auto simp: analyze_audio_def run_inference_def split: prod.splits sum.splits)

text \<open>
  C6 on backend/main.py: the mode is never validated. A request with mode \<open>fast\<close> is
  answered with a successful result that echoes the mode, carries the 300 vibration
  points of a deep scan and reports the class the model inferred: conversion, feature
  extraction and inference all ran. (The variant in main.py rejects the same mode with
  status 400 before reading the file, see \<open>main_rejects_fast\<close>.)
\<close>

theorem backend_accepts_fast_mode:
  "\<not> isl (fst (analyze_audio
          (sample_env 0 (Vector [39/800, 39/800, 39/800, 39/800, 61/100, 39/800, 39/800, 39/800, 39/800]))
          Map.empty [26, 69] ''fast'' zero_jitter ''2025-01-01T00:00:00'')) \<and>
   mode (projr (fst (analyze_audio
          (sample_env 0 (Vector [39/800, 39/800, 39/800, 39/800, 61/100, 39/800, 39/800, 39/800, 39/800]))
          Map.empty [26, 69] ''fast'' zero_jitter ''2025-01-01T00:00:00''))) = ''fast'' \<and>
   length (vibrationData (projr (fst (analyze_audio
          (sample_env 0 (Vector [39/800, 39/800, 39/800, 39/800, 61/100, 39/800, 39/800, 39/800, 39/800]))
          Map.empty [26, 69] ''fast'' zero_jitter ''2025-01-01T00:00:00'')))) = 300 \<and>
   detectedClass (projr (fst (analyze_audio
          (sample_env 0 (Vector [39/800, 39/800, 39/800, 39/800, 61/100, 39/800, 39/800, 39/800, 39/800]))
          Map.empty [26, 69] ''fast'' zero_jitter ''2025-01-01T00:00:00''))) = ''knocking''"
  by (simp add: analyze_audio_response run_inference_sample_ok classify_knocking_61
      build_response_fields gate_knocking_61 vibration_length)

subsection \<open>Temporary files of the conversion (C7)\<close>

lemma webm_to_wav_failure_leaves_files:
  assumes "ffmpeg env (fs(mktemp env fs \<mapsto> audio)) (mktemp env fs)
             (str_replace ''.webm'' ''.wav'' (mktemp env fs)) = (status, fs2)"
    and "status \<noteq> 0"
  shows "webm_to_wav env fs audio = (Inl (CalledProcessError status), fs2)"
  using assms by (simp add: webm_to_wav_def Let_def)

lemma webm_to_wav_success_removes_both:
  assumes "webm_to_wav env fs audio = (Inr wav, fs')"
  shows "fs' (mktemp env fs) = None \<and> fs' (str_replace ''.webm'' ''.wav'' (mktemp env fs)) = None"
  using assms
  by (auto simp: webm_to_wav_def Let_def os_remove_def split: prod.splits if_splits option.splits)

text \<open>
  C7 at a failing input: the decoder exits with status 1 and touches no file. The status
  is propagated as \<open>CalledProcessError 1\<close>, but the two \<open>os.remove\<close> calls are never
  reached: the temporary input file is still there, with the uploaded bytes in it.
\<close>

theorem webm_to_wav_leaks_on_failure:
  "fst (webm_to_wav (sample_env 1 (Vector [])) Map.empty [26, 69]) = Inl (CalledProcessError 1) \<and>
   snd (webm_to_wav (sample_env 1 (Vector [])) Map.empty [26, 69]) ''/tmp/tmpclip.webm'' = Some [26, 69]"
  by (simp add: webm_to_wav_def sample_env_def wav_path_sample)

end
